theory Spec2Isabelle
  imports Main "HOL-Library.Sublist"
begin

section \<open>The task store of TaskManagerServer.ts\<close>

text \<open>
  A shallow embedding of the class \<open>TaskManagerServer\<close>
  (src/server/TaskManagerServer.ts). The object's fields (\<open>projectCounter\<close>,
  \<open>taskCounter\<close>, \<open>data\<close>) and the backing file are one explicit state that every
  operation takes and returns. Each public method is one atomic step: the interleaving of
  \<open>await\<close> points is not modelled.

  Boundaries of the model:
  \<^item> A JavaScript number that holds an integer is an \<open>int\<close>, and every number the code
    computes or reads is rounded to the nearest double (\<open>js_number\<close>), so that
    \<open>2^53 + 1\<close> is \<open>2^53\<close>. The rendering \<open>`${n}`\<close> is the decimal expansion of \<open>n\<close>,
    as it is in JavaScript for every number of magnitude up to \<open>2^54\<close>; a larger number
    is printed as the shortest decimal that reads back as the same number (and in exponent
    form from \<open>10^21\<close>), and \<open>parseInt\<close> may approximate a numeral of more than 20
    digits: neither is modelled.
  \<^item> A call that spreads an array into arguments (\<open>Math.max(...xs)\<close>, \<open>push(...xs)\<close>)
    throws a \<open>RangeError\<close> when the array is longer than the engine accepts; that length
    is the field \<open>max_arguments\<close> of the state, one number for every such call.
  \<^item> Strings are lists of 8-bit characters.
  \<^item> The \<open>message\<close> texts of successful responses (progress tables) are presentation
    only and are left out; the messages of error responses are kept literally.
  \<^item> The arguments of the two tool handlers (\<open>args: any\<close>) are records of the properties
    the handlers destructure, with the types the called methods declare.
\<close>

subsection \<open>Data model\<close>

datatype task_status = NotStarted | InProgress | Done

fun status_name :: "task_status \<Rightarrow> string" where
  "status_name NotStarted = ''not started''"
| "status_name InProgress = ''in progress''"
| "status_name Done = ''done''"

definition parse_status :: "string \<Rightarrow> task_status option" where
  "parse_status s =
     (if s = ''not started'' then Some NotStarted
      else if s = ''in progress'' then Some InProgress
      else if s = ''done'' then Some Done
      else None)"

text \<open>The objects built by \<open>createProject\<close>. A task's field \<open>id\<close> is \<open>task_id\<close>
  here.\<close>

record task =
  task_id :: string
  title :: string
  description :: string
  status :: task_status
  approved :: bool
  completedDetails :: string

record project =
  projectId :: string
  initialPrompt :: string
  projectPlan :: string
  tasks :: "task list"
  completed :: bool

text \<open>The element type \<open>{ title: string; description: string }\<close> of the task lists
  passed to \<open>createProject\<close> and \<open>addTasksToProject\<close>.\<close>

record task_def =
  def_title :: string
  def_description :: string

text \<open>
  The state: the three mutable fields of the object, the content of the backing file
  (\<open>None\<close> when the file is absent, unreadable or not a well-formed store, so that
  \<open>loadTasks\<close> ends in its \<open>catch\<close> branch), whether the medium accepts a write
  (\<open>saveTasks\<close> rethrows the error otherwise), and the largest number of arguments that
  the engine accepts in a call.
\<close>

record manager =
  projectCounter :: int
  taskCounter :: int
  data :: "project list"
  disk :: "project list option"
  writable :: bool
  max_arguments :: nat

subsection \<open>Responses\<close>

type_synonym brief = "string \<times> string \<times> string"
  \<comment> \<open>\<open>{ id, title, description }\<close>\<close>

type_synonym completion = "string \<times> string \<times> string \<times> string \<times> bool"
  \<comment> \<open>\<open>{ id, title, description, completedDetails, approved }\<close>\<close>

type_synonym project_line = "string \<times> string \<times> nat \<times> nat \<times> nat"
  \<comment> \<open>\<open>{ projectId, initialPrompt, totalTasks, completedTasks, approvedTasks }\<close>\<close>

datatype response =
    Error string
  | Thrown
  | Planned string nat "brief list"
  | AlreadyCompleted
  | AllTasksDone
  | NoNextTask
  | NextTask brief
  | AlreadyDone
  | TaskMarkedDone string completion
  | AlreadyApproved
  | TaskApproved string completion
  | ProjectApprovedComplete string
  | TaskDetails string string string bool task
  | TaskNotFound
  | ProjectsListed "project_line list"
  | TasksAdded "brief list"
  | TaskUpdatedBrief brief
  | TaskUpdated task
  | TaskDeleted
  | ProjectDeleted

text \<open>The \<open>status\<close> property of the returned object. \<open>Thrown\<close> is not a returned
  object: it stands for an exception that leaves the method (the error that \<open>saveTasks\<close>
  rethrows, or the \<open>RangeError\<close> of a spread call).\<close>

fun status_of :: "response \<Rightarrow> string" where
  "status_of (Error m) = ''error''"
| "status_of Thrown = ''''"
| "status_of (Planned p n ts) = ''planned''"
| "status_of AlreadyCompleted = ''already_completed''"
| "status_of AllTasksDone = ''all_tasks_done''"
| "status_of NoNextTask = ''no_next_task''"
| "status_of (NextTask b) = ''next_task''"
| "status_of AlreadyDone = ''already_done''"
| "status_of (TaskMarkedDone p c) = ''task_marked_done''"
| "status_of AlreadyApproved = ''already_approved''"
| "status_of (TaskApproved p c) = ''task_approved''"
| "status_of (ProjectApprovedComplete p) = ''project_approved_complete''"
| "status_of (TaskDetails p i pl c t) = ''task_details''"
| "status_of TaskNotFound = ''task_not_found''"
| "status_of (ProjectsListed ls) = ''projects_listed''"
| "status_of (TasksAdded bs) = ''tasks_added''"
| "status_of (TaskUpdatedBrief b) = ''task_updated''"
| "status_of (TaskUpdated t) = ''task_updated''"
| "status_of TaskDeleted = ''task_deleted''"
| "status_of ProjectDeleted = ''project_deleted''"

definition brief_of :: "task \<Rightarrow> brief" where
  "brief_of t = (task_id t, title t, description t)"

definition completion_of :: "task \<Rightarrow> completion" where
  "completion_of t = (task_id t, title t, description t, completedDetails t, approved t)"

subsection \<open>Strings and numbers\<close>

text \<open>A JavaScript value used as a condition: \<open>undefined\<close> and the empty string are
  falsy.\<close>

definition truthy :: "string option \<Rightarrow> bool" where
  "truthy v = (case v of None \<Rightarrow> False | Some s \<Rightarrow> s \<noteq> [])"

text \<open>\<open>s.replace(pat, "")\<close> with a string pattern: the first occurrence of \<open>pat\<close> is
  removed, wherever it is.\<close>

fun replace_first :: "string \<Rightarrow> string \<Rightarrow> string" where
  "replace_first pat [] = []"
| "replace_first pat (c # cs) =
     (if prefix pat (c # cs) then drop (length pat) (c # cs)
      else c # replace_first pat cs)"

definition digit_char :: "nat \<Rightarrow> char" where
  "digit_char d = ''0123456789'' ! d"

text \<open>The value of a decimal digit, from its character code (\<open>0\<close> is 48).\<close>

definition digit_val :: "char \<Rightarrow> nat option" where
  "digit_val c =
     (let k = (of_char c :: nat) in if 48 \<le> k \<and> k \<le> 57 then Some (k - 48) else None)"

definition is_digit :: "char \<Rightarrow> bool" where
  "is_digit c = (digit_val c \<noteq> None)"

text \<open>The decimal digits of a natural number, and the template-literal rendering
  \<open>`${n}`\<close> of an integer.\<close>

fun digits :: "nat \<Rightarrow> string" where
  "digits n = (if n < 10 then [digit_char n] else digits (n div 10) @ [digit_char (n mod 10)])"

declare digits.simps [simp del]

definition number_string :: "int \<Rightarrow> string" where
  "number_string i = (if i < 0 then CHR ''-'' # digits (nat (- i)) else digits (nat i))"

text \<open>
  The JavaScript number nearest to an integer. A double keeps 53 significant bits:
  \<open>dropped_bits a\<close> is the number of low bits of \<open>a\<close> that do not fit, and the integer is
  rounded to a multiple of \<open>2 ^ dropped_bits a\<close>, a tie going to the even multiple. So
  every integer of magnitude up to \<open>2^53\<close> is itself, and \<open>2^53 + 1\<close> is \<open>2^53\<close>.
\<close>

function dropped_bits :: "nat \<Rightarrow> nat" where
  "dropped_bits a = (if a < 2 ^ 53 then 0 else Suc (dropped_bits (a div 2)))"
  by pat_completeness auto
termination
  by (relation "measure (\<lambda>a. a)") auto

declare dropped_bits.simps [simp del]

definition round_nat :: "nat \<Rightarrow> nat" where
  "round_nat a =
     (let sh = dropped_bits a; q = a div 2 ^ sh; r = a mod 2 ^ sh
      in if 2 ^ sh < 2 * r \<or> (2 * r = 2 ^ sh \<and> odd q) then (q + 1) * 2 ^ sh else q * 2 ^ sh)"

definition js_number :: "int \<Rightarrow> int" where
  "js_number n = (if n < 0 then - int (round_nat (nat (- n))) else int (round_nat (nat n)))"

text \<open>\<open>Number.parseInt(s, 10)\<close>: leading white space is skipped, one sign is read, then
  the longest run of decimal digits, whose value is rounded to a number; \<open>None\<close> is
  \<open>NaN\<close> (no digit). The white space characters that are 8-bit characters are tab, line
  feed, vertical tab, form feed, carriage return, space and no-break space (\<open>U+00A0\<close>);
  the others have code points above 255.\<close>

definition is_space :: "char \<Rightarrow> bool" where
  "is_space c =
     (c \<in> set [CHR 0x09, CHR 0x0A, CHR 0x0B, CHR 0x0C, CHR 0x0D, CHR '' '', CHR 0xA0])"

definition digits_value :: "string \<Rightarrow> nat" where
  "digits_value ds = foldl (\<lambda>a c. case digit_val c of Some d \<Rightarrow> 10 * a + d | None \<Rightarrow> a) 0 ds"

definition parseInt :: "string \<Rightarrow> int option" where
  "parseInt s =
     (let t = dropWhile is_space s;
          neg = (case t of [] \<Rightarrow> False | c # r \<Rightarrow> c = CHR ''-'');
          u = (case t of [] \<Rightarrow> [] | c # r \<Rightarrow> if c = CHR ''-'' \<or> c = CHR ''+'' then r else t);
          ds = takeWhile is_digit u
      in if ds = [] then None
         else Some (js_number (if neg then - int (digits_value ds) else int (digits_value ds))))"

text \<open>\<open>Math.max(...(x # xs))\<close>, the array being not empty: the largest element, or a
  \<open>RangeError\<close> (\<open>None\<close>) when the array has more elements than the engine accepts as
  arguments.\<close>

definition math_max :: "nat \<Rightarrow> int \<Rightarrow> int list \<Rightarrow> int option" where
  "math_max limit x xs = (if limit < length (x # xs) then None else Some (fold max xs x))"

text \<open>\<open>ids.length > 0 ? Math.max(...ids) : 0\<close>, as \<open>loadTasks\<close> computes each counter.\<close>

definition counter_from :: "nat \<Rightarrow> int list \<Rightarrow> int option" where
  "counter_from limit ids = (case ids of [] \<Rightarrow> Some 0 | x # xs \<Rightarrow> math_max limit x xs)"

text \<open>The value of that expression when the call does not throw: the watermark.\<close>

definition watermark :: "int list \<Rightarrow> int" where
  "watermark ns = (case ns of [] \<Rightarrow> 0 | x # xs \<Rightarrow> fold max xs x)"

text \<open>\<open>xs.find(P)\<close> followed by an assignment to the object found: the first element
  that satisfies \<open>P\<close> is changed in place. \<open>remove_first\<close> is \<open>findIndex\<close> followed by
  \<open>splice(index, 1)\<close>.\<close>

fun update_first :: "('a \<Rightarrow> bool) \<Rightarrow> ('a \<Rightarrow> 'a) \<Rightarrow> 'a list \<Rightarrow> 'a list" where
  "update_first P f [] = []"
| "update_first P f (x # xs) = (if P x then f x # xs else x # update_first P f xs)"

fun remove_first :: "('a \<Rightarrow> bool) \<Rightarrow> 'a list \<Rightarrow> 'a list" where
  "remove_first P [] = []"
| "remove_first P (x # xs) = (if P x then xs else x # remove_first P xs)"

fun join :: "string \<Rightarrow> string list \<Rightarrow> string" where
  "join sep [] = []"
| "join sep [x] = x"
| "join sep (x # y # ys) = x @ sep @ join sep (y # ys)"

subsection \<open>Loading and saving\<close>

definition allProjectIds :: "project list \<Rightarrow> int list" where
  "allProjectIds ps =
     List.map_filter (\<lambda>p. parseInt (replace_first ''proj-'' (projectId p))) ps"

definition allTaskIds :: "project list \<Rightarrow> int list" where
  "allTaskIds ps =
     concat (map (\<lambda>p. List.map_filter (\<lambda>t. parseInt (replace_first ''task-'' (task_id t)))
                        (tasks p)) ps)"

text \<open>\<open>loadTasks\<close>: on success the data are replaced by the file's and both counters
  are recomputed. In the \<open>catch\<close> branch the data are emptied and a counter that has
  not been assigned keeps its value: both counters when the file cannot be read or the
  first \<open>Math.max\<close> throws, the task counter alone when the second one throws.\<close>

definition loadTasks :: "manager \<Rightarrow> manager" where
  "loadTasks s =
     (case disk s of
        None \<Rightarrow> s\<lparr>data := []\<rparr>
      | Some ps \<Rightarrow>
          (case counter_from (max_arguments s) (allProjectIds ps) of
             None \<Rightarrow> s\<lparr>data := []\<rparr>
           | Some pc \<Rightarrow>
               (case counter_from (max_arguments s) (allTaskIds ps) of
                  None \<Rightarrow> s\<lparr>data := [], projectCounter := pc\<rparr>
                | Some tc \<Rightarrow> s\<lparr>data := ps, projectCounter := pc, taskCounter := tc\<rparr>)))"

text \<open>\<open>saveTasks\<close>: the whole of \<open>data\<close> replaces the file's content, or the write is
  rejected and the error is rethrown (\<open>None\<close>).\<close>

definition saveTasks :: "manager \<Rightarrow> manager option" where
  "saveTasks s = (if writable s then Some (s\<lparr>disk := Some (data s)\<rparr>) else None)"

text \<open>The end of every mutating method: \<open>await this.saveTasks(); return r\<close>. The
  response \<open>Thrown\<close> is an exception that leaves the method.\<close>

definition save_and_return :: "response \<Rightarrow> manager \<Rightarrow> response \<times> manager" where
  "save_and_return r s = (case saveTasks s of None \<Rightarrow> (Thrown, s) | Some s' \<Rightarrow> (r, s'))"

text \<open>The constructor: fresh counters and data, then \<open>loadTasks\<close> on the given file.\<close>

definition construct :: "project list option \<Rightarrow> bool \<Rightarrow> nat \<Rightarrow> manager" where
  "construct f w limit =
     loadTasks \<lparr>projectCounter = 0, taskCounter = 0, data = [], disk = f, writable = w,
                max_arguments = limit\<rparr>"

subsection \<open>The public methods\<close>

text \<open>The loop that allocates task identifiers: the counter is incremented before each
  task is built (\<open>this.taskCounter += 1\<close>, an addition of JavaScript numbers). It returns
  the final counter and the new tasks.\<close>

fun newTasks :: "int \<Rightarrow> task_def list \<Rightarrow> int \<times> task list" where
  "newTasks c [] = (c, [])"
| "newTasks c (d # ds) =
     (let c' = js_number (c + 1);
          t = \<lparr>task_id = ''task-'' @ number_string c', title = def_title d,
               description = def_description d, status = NotStarted, approved = False,
               completedDetails = ''''\<rparr>;
          (c'', ts) = newTasks c' ds
      in (c'', t # ts))"

definition createProject ::
  "string \<Rightarrow> task_def list \<Rightarrow> string option \<Rightarrow> manager \<Rightarrow> response \<times> manager" where
  "createProject prompt defs plan s0 =
     (let s = loadTasks s0;
          pc = js_number (projectCounter s + 1);
          pid = ''proj-'' @ number_string pc;
          (tc, ts) = newTasks (taskCounter s) defs;
          p = \<lparr>projectId = pid, initialPrompt = prompt,
               projectPlan = (if truthy plan then the plan else prompt),
               tasks = ts, completed = False\<rparr>
      in save_and_return (Planned pid (length ts) (map brief_of ts))
           (s\<lparr>projectCounter := pc, taskCounter := tc, data := data s @ [p]\<rparr>))"

definition getNextTask :: "string \<Rightarrow> manager \<Rightarrow> response \<times> manager" where
  "getNextTask pid s0 =
     (let s = loadTasks s0 in
      case find (\<lambda>p. projectId p = pid) (data s) of
        None \<Rightarrow> (Error ''Project not found'', s)
      | Some proj \<Rightarrow>
          if completed proj then (AlreadyCompleted, s)
          else (case find (\<lambda>t. status t \<noteq> Done) (tasks proj) of
                  None \<Rightarrow>
                    if list_all (\<lambda>t. status t = Done) (tasks proj) \<and> \<not> completed proj
                    then (AllTasksDone, s)
                    else (NoNextTask, s)
                | Some nextTask \<Rightarrow> (NextTask (brief_of nextTask), s)))"

text \<open>The in-place change of the task found by the two \<open>find\<close> calls.\<close>

definition update_task_in ::
  "string \<Rightarrow> string \<Rightarrow> (task \<Rightarrow> task) \<Rightarrow> project list \<Rightarrow> project list" where
  "update_task_in pid tid f ps =
     update_first (\<lambda>p. projectId p = pid)
       (\<lambda>p. p\<lparr>tasks := update_first (\<lambda>t. task_id t = tid) f (tasks p)\<rparr>) ps"

definition markTaskDone ::
  "string \<Rightarrow> string \<Rightarrow> string option \<Rightarrow> manager \<Rightarrow> response \<times> manager" where
  "markTaskDone pid tid details s0 =
     (let s = loadTasks s0 in
      case find (\<lambda>p. projectId p = pid) (data s) of
        None \<Rightarrow> (Error ''Project not found'', s)
      | Some proj \<Rightarrow>
          (case find (\<lambda>t. task_id t = tid) (tasks proj) of
             None \<Rightarrow> (Error ''Task not found'', s)
           | Some t \<Rightarrow>
               if status t = Done then (AlreadyDone, s)
               else
                 (let t' = t\<lparr>status := Done,
                             completedDetails := (if truthy details then the details else '''')\<rparr>
                  in save_and_return (TaskMarkedDone (projectId proj) (completion_of t'))
                       (s\<lparr>data := update_task_in pid tid (\<lambda>_. t') (data s)\<rparr>))))"

definition approveTaskCompletion :: "string \<Rightarrow> string \<Rightarrow> manager \<Rightarrow> response \<times> manager" where
  "approveTaskCompletion pid tid s0 =
     (let s = loadTasks s0 in
      case find (\<lambda>p. projectId p = pid) (data s) of
        None \<Rightarrow> (Error ''Project not found'', s)
      | Some proj \<Rightarrow>
          (case find (\<lambda>t. task_id t = tid) (tasks proj) of
             None \<Rightarrow> (Error ''Task not found'', s)
           | Some t \<Rightarrow>
               if status t \<noteq> Done then (Error ''Task not done yet.'', s)
               else if approved t then (AlreadyApproved, s)
               else
                 (let t' = t\<lparr>approved := True\<rparr>
                  in save_and_return (TaskApproved (projectId proj) (completion_of t'))
                       (s\<lparr>data := update_task_in pid tid (\<lambda>_. t') (data s)\<rparr>))))"

definition approveProjectCompletion :: "string \<Rightarrow> manager \<Rightarrow> response \<times> manager" where
  "approveProjectCompletion pid s0 =
     (let s = loadTasks s0 in
      case find (\<lambda>p. projectId p = pid) (data s) of
        None \<Rightarrow> (Error ''Project not found'', s)
      | Some proj \<Rightarrow>
          if \<not> list_all (\<lambda>t. status t = Done) (tasks proj)
          then (Error ''Not all tasks are done.'', s)
          else if \<not> list_all (\<lambda>t. status t = Done \<and> approved t) (tasks proj)
          then (Error ''Not all done tasks are approved.'', s)
          else save_and_return (ProjectApprovedComplete (projectId proj))
                 (s\<lparr>data := update_first (\<lambda>p. projectId p = pid)
                                (\<lambda>p. p\<lparr>completed := True\<rparr>) (data s)\<rparr>))"

text \<open>\<open>openTaskDetails\<close>: the loop over the projects returns at the first project that
  holds a task with the identifier.\<close>

fun find_task_details :: "string \<Rightarrow> project list \<Rightarrow> response" where
  "find_task_details tid [] = TaskNotFound"
| "find_task_details tid (p # ps) =
     (case find (\<lambda>t. task_id t = tid) (tasks p) of
        Some target \<Rightarrow>
          TaskDetails (projectId p) (initialPrompt p) (projectPlan p) (completed p) target
      | None \<Rightarrow> find_task_details tid ps)"

definition openTaskDetails :: "string \<Rightarrow> manager \<Rightarrow> response \<times> manager" where
  "openTaskDetails tid s0 = (let s = loadTasks s0 in (find_task_details tid (data s), s))"

definition listProjects :: "manager \<Rightarrow> response \<times> manager" where
  "listProjects s0 =
     (let s = loadTasks s0 in
      (ProjectsListed
         (map (\<lambda>p. (projectId p, initialPrompt p, length (tasks p),
                     length (filter (\<lambda>t. status t = Done) (tasks p)),
                     length (filter approved (tasks p)))) (data s)), s))"

text \<open>\<open>addTasksToProject\<close> appends with \<open>proj.tasks.push(...newTasks)\<close>: with more new
  tasks than the engine accepts as arguments the call throws, after the loop has advanced
  the counter and before anything is appended or saved.\<close>

definition addTasksToProject ::
  "string \<Rightarrow> task_def list \<Rightarrow> manager \<Rightarrow> response \<times> manager" where
  "addTasksToProject pid defs s0 =
     (let s = loadTasks s0 in
      case find (\<lambda>p. projectId p = pid) (data s) of
        None \<Rightarrow> (Error ''Project not found'', s)
      | Some proj \<Rightarrow>
          if completed proj then (Error ''Cannot add tasks to completed project'', s)
          else
            (let (tc, ts) = newTasks (taskCounter s) defs
             in if max_arguments s < length ts then (Thrown, s\<lparr>taskCounter := tc\<rparr>)
                else save_and_return (TasksAdded (map brief_of ts))
                  (s\<lparr>taskCounter := tc,
                     data := update_first (\<lambda>p. projectId p = pid)
                               (\<lambda>p. p\<lparr>tasks := tasks p @ ts\<rparr>) (data s)\<rparr>)))"

definition updateTask ::
  "string \<Rightarrow> string \<Rightarrow> string option \<Rightarrow> string option \<Rightarrow> manager \<Rightarrow> response \<times> manager"
  where
  "updateTask pid tid new_title new_description s0 =
     (let s = loadTasks s0 in
      case find (\<lambda>p. projectId p = pid) (data s) of
        None \<Rightarrow> (Error ''Project not found'', s)
      | Some proj \<Rightarrow>
          (case find (\<lambda>t. task_id t = tid) (tasks proj) of
             None \<Rightarrow> (Error ''Task not found'', s)
           | Some t \<Rightarrow>
               if status t = Done then (Error ''Cannot update completed task'', s)
               else
                 (let t1 = (if truthy new_title then t\<lparr>title := the new_title\<rparr> else t);
                      t2 = (if truthy new_description
                            then t1\<lparr>description := the new_description\<rparr> else t1)
                  in save_and_return (TaskUpdatedBrief (brief_of t2))
                       (s\<lparr>data := update_task_in pid tid (\<lambda>_. t2) (data s)\<rparr>))))"

definition deleteTask :: "string \<Rightarrow> string \<Rightarrow> manager \<Rightarrow> response \<times> manager" where
  "deleteTask pid tid s0 =
     (let s = loadTasks s0 in
      case find (\<lambda>p. projectId p = pid) (data s) of
        None \<Rightarrow> (Error ''Project not found'', s)
      | Some proj \<Rightarrow>
          (case find (\<lambda>t. task_id t = tid) (tasks proj) of
             None \<Rightarrow> (Error ''Task not found'', s)
           | Some t \<Rightarrow>
               if status t = Done then (Error ''Cannot delete completed task'', s)
               else save_and_return TaskDeleted
                      (s\<lparr>data := update_first (\<lambda>p. projectId p = pid)
                                     (\<lambda>p. p\<lparr>tasks := remove_first (\<lambda>t. task_id t = tid) (tasks p)\<rparr>)
                                     (data s)\<rparr>)))"

subsection \<open>The tool handlers\<close>

text \<open>
  The properties that \<open>handleProjectTool\<close> destructures from \<open>args\<close>. A caller may
  pass further properties; \<open>parg_autoApprove\<close> stands for one that callers pass by that
  name. The handler does not read it.
\<close>

record project_tool_args =
  parg_projectId :: string
  parg_initialPrompt :: string
  parg_tasks :: "task_def list"
  parg_projectPlan :: "string option"
  parg_autoApprove :: "bool option"

text \<open>The properties that \<open>handleTaskTool\<close> destructures from \<open>args\<close>; \<open>None\<close> is
  \<open>undefined\<close>. The requested status is the string the caller sent.\<close>

record task_tool_args =
  arg_projectId :: string
  arg_taskId :: string
  arg_title :: "string option"
  arg_description :: "string option"
  arg_status :: "string option"
  arg_completedDetails :: "string option"

definition quoted :: "string \<Rightarrow> string" where
  "quoted s = [CHR 0x27] @ s @ [CHR 0x27]"

definition handleProjectTool ::
  "string \<Rightarrow> project_tool_args \<Rightarrow> manager \<Rightarrow> response \<times> manager" where
  "handleProjectTool action a s =
     (if action = ''list'' then listProjects s
      else if action = ''create'' then
        createProject (parg_initialPrompt a) (parg_tasks a) (parg_projectPlan a) s
      else if action = ''delete'' then
        (case find (\<lambda>p. projectId p = parg_projectId a) (data s) of
           None \<Rightarrow> (Error ''Project not found'', s)
         | Some _ \<Rightarrow>
             save_and_return ProjectDeleted
               (s\<lparr>data := remove_first (\<lambda>p. projectId p = parg_projectId a) (data s)\<rparr>))
      else if action = ''add_tasks'' then addTasksToProject (parg_projectId a) (parg_tasks a) s
      else if action = ''finalize'' then approveProjectCompletion (parg_projectId a) s
      else (Error (''Unknown action '' @ quoted action), s))"

text \<open>The table \<open>validNextStates\<close> of the \<open>update\<close> action.\<close>

fun validNextStates :: "task_status \<Rightarrow> string list" where
  "validNextStates NotStarted = [''in progress'']"
| "validNextStates InProgress = [''done'', ''not started'']"
| "validNextStates Done = [''in progress'']"

definition invalid_transition :: "task_status \<Rightarrow> string \<Rightarrow> response" where
  "invalid_transition cur req =
     Error (''Invalid status transition from '' @ quoted (status_name cur) @ '' to ''
            @ quoted req @ ''. Allowed transitions: '' @ join '', '' (validNextStates cur))"

definition details_required :: response where
  "details_required =
     Error (''completedDetails is required when setting status to '' @ quoted ''done'')"

text \<open>
  The \<open>update\<close> action works on the data in memory: it does not call \<open>loadTasks\<close>.
  Both early returns on the requested status come before the first assignment to the
  task. \<open>apply_updates\<close> is the sequence of assignments to the task: the completion
  details, then the block under \<open>// Apply updates\<close>. Its last assignment
  \<open>task.status = updates.status\<close> stores a string that the checks above have found to
  be the task's own status or a member of the table, so \<open>parse_status\<close> returns a value
  there.
\<close>

definition apply_updates :: "task_tool_args \<Rightarrow> task \<Rightarrow> task" where
  "apply_updates a t =
     (let t0 = (if arg_status a = Some ''done''
                then t\<lparr>completedDetails := the (arg_completedDetails a)\<rparr> else t);
          t1 = (if truthy (arg_title a) then t0\<lparr>title := the (arg_title a)\<rparr> else t0);
          t2 = (if truthy (arg_description a)
                then t1\<lparr>description := the (arg_description a)\<rparr> else t1)
      in if truthy (arg_status a)
         then (case parse_status (the (arg_status a)) of
                 Some v \<Rightarrow> t2\<lparr>status := v\<rparr> | None \<Rightarrow> t2)
         else t2)"

definition handleTaskTool_update :: "task_tool_args \<Rightarrow> manager \<Rightarrow> response \<times> manager" where
  "handleTaskTool_update a s =
     (case find (\<lambda>p. projectId p = arg_projectId a) (data s) of
        None \<Rightarrow> (Error (''Project not found: '' @ arg_projectId a), s)
      | Some proj \<Rightarrow>
          (case find (\<lambda>t. task_id t = arg_taskId a) (tasks proj) of
             None \<Rightarrow>
               (Error (''Task not found: '' @ arg_taskId a @ '' in project '' @ arg_projectId a), s)
           | Some t \<Rightarrow>
               if approved t
               then (Error (''Cannot update an approved task: '' @ arg_taskId a), s)
               else if (case arg_status a of
                          None \<Rightarrow> False
                        | Some st \<Rightarrow> status_name (status t) \<noteq> st
                                     \<and> st \<notin> set (validNextStates (status t)))
               then (invalid_transition (status t) (the (arg_status a)), s)
               else if arg_status a = Some ''done'' \<and> \<not> truthy (arg_completedDetails a)
               then (details_required, s)
               else
                 (let t' = apply_updates a t
                  in save_and_return (TaskUpdated t')
                       (s\<lparr>data := update_task_in (arg_projectId a) (arg_taskId a) (\<lambda>_. t')
                                     (data s)\<rparr>))))"

definition handleTaskTool ::
  "string \<Rightarrow> task_tool_args \<Rightarrow> manager \<Rightarrow> response \<times> manager" where
  "handleTaskTool action a s =
     (if action = ''read'' then openTaskDetails (arg_taskId a) s
      else if action = ''update'' then handleTaskTool_update a s
      else if action = ''delete'' then deleteTask (arg_projectId a) (arg_taskId a) s
      else (Error (''Unknown action '' @ quoted action), s))"

subsection \<open>Sequences of operations\<close>

text \<open>One constructor for each public method, one for a reload of the store
  (\<open>loadTasks\<close>) and one for a restart (a new object on the same file).\<close>

datatype operation =
    CreateProject string "task_def list" "string option"
  | GetNextTask string
  | MarkTaskDone string string "string option"
  | ApproveTaskCompletion string string
  | ApproveProjectCompletion string
  | OpenTaskDetails string
  | ListProjects
  | AddTasksToProject string "task_def list"
  | UpdateTask string string "string option" "string option"
  | DeleteTask string string
  | HandleProjectTool string project_tool_args
  | HandleTaskTool string task_tool_args
  | Reload
  | Restart

fun step :: "operation \<Rightarrow> manager \<Rightarrow> response option \<times> manager" where
  "step (CreateProject prompt defs plan) s = map_prod Some id (createProject prompt defs plan s)"
| "step (GetNextTask pid) s = map_prod Some id (getNextTask pid s)"
| "step (MarkTaskDone pid tid details) s = map_prod Some id (markTaskDone pid tid details s)"
| "step (ApproveTaskCompletion pid tid) s = map_prod Some id (approveTaskCompletion pid tid s)"
| "step (ApproveProjectCompletion pid) s = map_prod Some id (approveProjectCompletion pid s)"
| "step (OpenTaskDetails tid) s = map_prod Some id (openTaskDetails tid s)"
| "step ListProjects s = map_prod Some id (listProjects s)"
| "step (AddTasksToProject pid defs) s = map_prod Some id (addTasksToProject pid defs s)"
| "step (UpdateTask pid tid ti de) s = map_prod Some id (updateTask pid tid ti de s)"
| "step (DeleteTask pid tid) s = map_prod Some id (deleteTask pid tid s)"
| "step (HandleProjectTool action a) s = map_prod Some id (handleProjectTool action a s)"
| "step (HandleTaskTool action a) s = map_prod Some id (handleTaskTool action a s)"
| "step Reload s = (None, loadTasks s)"
| "step Restart s = (None, construct (disk s) (writable s) (max_arguments s))"

text \<open>Running a sequence: the responses in order, and the final state.\<close>

fun run :: "operation list \<Rightarrow> manager \<Rightarrow> response list \<times> manager" where
  "run [] s = ([], s)"
| "run (op # ops) s =
     (let (r, s') = step op s; (rs, s'') = run ops s'
      in ((case r of None \<Rightarrow> rs | Some x \<Rightarrow> x # rs), s''))"

subsection \<open>Predicates used in the properties\<close>

definition is_error :: "response \<Rightarrow> bool" where
  "is_error r = (case r of Error _ \<Rightarrow> True | _ \<Rightarrow> False)"

text \<open>The approval flags of a store, project by project, in order.\<close>

definition approvals :: "project list \<Rightarrow> bool list list" where
  "approvals ps = map (\<lambda>p. map approved (tasks p)) ps"

text \<open>The invariant on a task, on a list of projects, and on the state: it holds of the
  data in memory and of the content of the file.\<close>

definition task_ok :: "task \<Rightarrow> bool" where
  "task_ok t = (approved t \<longrightarrow> status t = Done)"

definition store_ok :: "project list \<Rightarrow> bool" where
  "store_ok ps = list_all (\<lambda>p. list_all task_ok (tasks p)) ps"

definition invariant :: "manager \<Rightarrow> bool" where
  "invariant s =
     (store_ok (data s) \<and> (case disk s of None \<Rightarrow> True | Some ps \<Rightarrow> store_ok ps))"

subsection \<open>Example stores\<close>

definition ex_task :: "string \<Rightarrow> task_status \<Rightarrow> bool \<Rightarrow> task" where
  "ex_task i st ap =
     \<lparr>task_id = i, title = ''T'', description = ''D'', status = st, approved = ap,
      completedDetails = (if st = Done then ''ok'' else [])\<rparr>"

definition ex_project :: "string \<Rightarrow> task list \<Rightarrow> bool \<Rightarrow> project" where
  "ex_project i ts c =
     \<lparr>projectId = i, initialPrompt = ''P'', projectPlan = ''P'', tasks = ts, completed = c\<rparr>"

text \<open>A manager started on a writable file that holds the given projects, in an engine
  that accepts 125000 arguments.\<close>

definition ex_store :: "project list \<Rightarrow> manager" where
  "ex_store ps = construct (Some ps) True 125000"

text \<open>One project with a task in progress, a task done and approved, and a task done
  and not approved.\<close>

definition ex_review :: manager where
  "ex_review = ex_store [ex_project ''proj-1''
     [ex_task ''task-1'' InProgress False, ex_task ''task-2'' Done True,
      ex_task ''task-3'' Done False] False]"

definition ex_update ::
  "string \<Rightarrow> string \<Rightarrow> string option \<Rightarrow> string option \<Rightarrow> task_tool_args" where
  "ex_update pid tid st det =
     \<lparr>arg_projectId = pid, arg_taskId = tid, arg_title = None, arg_description = None,
      arg_status = st, arg_completedDetails = det\<rparr>"

text \<open>A \<open>create\<close> request for a project with one task, sent with \<open>autoApprove: true\<close>.\<close>

definition ex_create_auto :: project_tool_args where
  "ex_create_auto =
     \<lparr>parg_projectId = [], parg_initialPrompt = ''P'',
      parg_tasks = [\<lparr>def_title = ''T'', def_description = ''D''\<rparr>],
      parg_projectPlan = None, parg_autoApprove = Some True\<rparr>"

text \<open>One project with one task, not started, and one with one task in progress.\<close>

definition ex_fresh :: manager where
  "ex_fresh = ex_store [ex_project ''proj-1'' [ex_task ''task-1'' NotStarted False] False]"

definition ex_started :: manager where
  "ex_started = ex_store [ex_project ''proj-1'' [ex_task ''task-1'' InProgress False] False]"

subsection \<open>Allocated identifiers\<close>





text \<open>The number of an identifier, read as \<open>loadTasks\<close> reads it, and the order of
  identifiers by their numbers (false when one of them has no number).\<close>

definition id_number :: "string \<Rightarrow> string \<Rightarrow> int option" where
  "id_number pre i = parseInt (replace_first pre i)"








subsection \<open>The limits of allocation\<close>



text \<open>The integers from \<open>w\<close> to \<open>w + d\<close> are numbers that a double holds exactly.\<close>

definition exact_range :: "int \<Rightarrow> nat \<Rightarrow> bool" where
  "exact_range w d = (- (2 ^ 53) \<le> w \<and> w + int d \<le> 2 ^ 53)"





section \<open>Properties\<close>

subsection \<open>Numbers that a double holds exactly\<close>

lemma dropped_bits_small: "a < 2 ^ 53 \<Longrightarrow> dropped_bits a = 0"
  by (subst dropped_bits.simps) simp

lemma round_nat_small: "a < 2 ^ 53 \<Longrightarrow> round_nat a = a"
  by (simp add: round_nat_def dropped_bits_small)

lemma dropped_bits_2_53: "dropped_bits (2 ^ 53) = 1"
  by (subst dropped_bits.simps) (simp add: dropped_bits_small)

lemma round_nat_2_53: "round_nat (2 ^ 53) = 2 ^ 53"
  unfolding round_nat_def dropped_bits_2_53 Let_def by simp

lemma round_nat_exact: "a \<le> 2 ^ 53 \<Longrightarrow> round_nat a = a"
  using round_nat_small[of a] round_nat_2_53 by (cases "a = 2 ^ 53") simp_all

lemma js_number_exact: "- (2 ^ 53) \<le> n \<Longrightarrow> n \<le> 2 ^ 53 \<Longrightarrow> js_number n = n"
proof (cases "n < 0")
  case True
  assume "- (2 ^ 53) \<le> n"
  then have "nat (- n) \<le> 2 ^ 53" by simp
  from round_nat_exact[OF this] True show ?thesis by (simp add: js_number_def)
next
  case False
  assume "n \<le> 2 ^ 53"
  then have "nat n \<le> 2 ^ 53" by simp
  from round_nat_exact[OF this] False show ?thesis by (simp add: js_number_def)
qed

subsection \<open>Loading, finding, updating in place\<close>

lemma loadTasks_disk [simp]: "disk (loadTasks s) = disk s"
  by (simp add: loadTasks_def split: option.splits)

lemma loadTasks_writable [simp]: "writable (loadTasks s) = writable s"
  by (simp add: loadTasks_def split: option.splits)

lemma loadTasks_max_arguments [simp]: "max_arguments (loadTasks s) = max_arguments s"
  by (simp add: loadTasks_def split: option.splits)

text \<open>The loaded data are the file's or, in the \<open>catch\<close> branch, empty.\<close>

lemma loadTasks_data_cases: "data (loadTasks s) = [] \<or> disk s = Some (data (loadTasks s))"
  by (simp add: loadTasks_def split: option.splits)


lemma loadTasks_found: "find P (data (loadTasks s)) = Some x \<Longrightarrow> disk s = Some (data (loadTasks s))"
  using loadTasks_data_cases[of s] by auto

lemma counter_from_fits: "length ns \<le> limit \<Longrightarrow> counter_from limit ns = Some (watermark ns)"
  by (cases ns) (simp_all add: counter_from_def math_max_def watermark_def)

lemma loadTasks_fits:
  "disk s = Some ps \<Longrightarrow> length (allProjectIds ps) \<le> max_arguments s \<Longrightarrow>
   length (allTaskIds ps) \<le> max_arguments s \<Longrightarrow>
     loadTasks s = s\<lparr>data := ps, projectCounter := watermark (allProjectIds ps),
                      taskCounter := watermark (allTaskIds ps)\<rparr>"
  by (simp add: loadTasks_def counter_from_fits)

lemma length_map_filter_le: "length (List.map_filter f xs) \<le> length xs"
  by (simp add: List.map_filter_def)

lemma length_allProjectIds: "length (allProjectIds ps) \<le> length ps"
  by (simp add: allProjectIds_def length_map_filter_le)

lemma length_allTaskIds: "length (allTaskIds ps) \<le> sum_list (map (\<lambda>p. length (tasks p)) ps)"
proof (induction ps)
  case Nil
  then show ?case by (simp add: allTaskIds_def)
next
  case (Cons p ps)
  have "length (List.map_filter (\<lambda>t. parseInt (replace_first ''task-'' (task_id t))) (tasks p))
          \<le> length (tasks p)"
    by (rule length_map_filter_le)
  with Cons show ?case by (simp add: allTaskIds_def)
qed

lemma loadTasks_small:
  assumes "disk s = Some ps" and "length ps \<le> max_arguments s"
    and "sum_list (map (\<lambda>p. length (tasks p)) ps) \<le> max_arguments s"
  shows "data (loadTasks s) = ps"
proof -
  have "length (allProjectIds ps) \<le> max_arguments s"
    using length_allProjectIds[of ps] assms(2) by simp
  moreover have "length (allTaskIds ps) \<le> max_arguments s"
    using length_allTaskIds[of ps] assms(3) by simp
  ultimately show ?thesis by (simp add: loadTasks_fits[OF assms(1)])
qed

lemma ex_store_loaded:
  "length ps \<le> 125000 \<Longrightarrow> sum_list (map (\<lambda>p. length (tasks p)) ps) \<le> 125000 \<Longrightarrow>
     data (ex_store ps) = ps"
  unfolding ex_store_def construct_def by (rule loadTasks_small) simp_all

lemma ex_store_disk: "disk (ex_store ps) = Some ps"
  by (simp add: ex_store_def construct_def)

lemma ex_store_max_arguments: "max_arguments (ex_store ps) = 125000"
  by (simp add: ex_store_def construct_def)

lemma ex_store_data:
  "length ps \<le> 125000 \<Longrightarrow> sum_list (map (\<lambda>p. length (tasks p)) ps) \<le> 125000 \<Longrightarrow>
     data (loadTasks (ex_store ps)) = ps"
  by (rule loadTasks_small) (simp_all add: ex_store_disk ex_store_max_arguments)

lemma ex_store_writable: "writable (ex_store ps)"
  by (simp add: ex_store_def construct_def)

lemma find_projectId: "find (\<lambda>p. projectId p = pid) ps = Some proj \<Longrightarrow> projectId proj = pid"
  by (auto simp: find_Some_iff)

lemma find_in_set: "find P xs = Some x \<Longrightarrow> x \<in> set xs"
  by (auto simp: find_Some_iff)

lemma update_first_same:
  "find P xs = Some x \<Longrightarrow> f x = x \<Longrightarrow> update_first P f xs = xs"
  by (induction xs) (auto split: if_splits)

lemma find_update_first:
  "find P xs = Some x \<Longrightarrow> P (f x) \<Longrightarrow> find P (update_first P f xs) = Some (f x)"
  by (induction xs) (auto split: if_splits)

text \<open>\<open>update_first\<close> changes the list at one position: the first one that satisfies
  the predicate.\<close>

lemma update_first_at:
  "find P xs = Some x \<Longrightarrow>
     \<exists>i < length xs. xs ! i = x \<and> (\<forall>j < i. \<not> P (xs ! j)) \<and> update_first P f xs = xs[i := f x]"
proof (induction xs)
  case Nil
  then show ?case by simp
next
  case (Cons y ys)
  show ?case
  proof (cases "P y")
    case True
    with Cons.prems have "y = x" by simp
    with True show ?thesis by (intro exI[of _ 0]) simp
  next
    case False
    with Cons.prems have "find P ys = Some x" by simp
    from Cons.IH[OF this] obtain i where i: "i < length ys" "ys ! i = x"
      "\<forall>j<i. \<not> P (ys ! j)" "update_first P f ys = ys[i := f x]" by blast
    have "\<forall>j < Suc i. \<not> P ((y # ys) ! j)"
      using False i(3) by (auto simp: less_Suc_eq_0_disj)
    with i False show ?thesis by (intro exI[of _ "Suc i"]) simp
  qed
qed

lemma update_task_in_at:
  assumes "find (\<lambda>p. projectId p = pid) ps = Some proj"
    and "find (\<lambda>t. task_id t = tid) (tasks proj) = Some t"
  shows "\<exists>i j. i < length ps \<and> ps ! i = proj \<and> j < length (tasks proj) \<and> tasks proj ! j = t
           \<and> update_task_in pid tid (\<lambda>_. t') ps = ps[i := proj\<lparr>tasks := (tasks proj)[j := t']\<rparr>]"
proof -
  from update_first_at[OF assms(1)] obtain i where i: "i < length ps" "ps ! i = proj"
    "update_first (\<lambda>p. projectId p = pid)
       (\<lambda>p. p\<lparr>tasks := update_first (\<lambda>t. task_id t = tid) (\<lambda>_. t') (tasks p)\<rparr>) ps
     = ps[i := proj\<lparr>tasks := update_first (\<lambda>t. task_id t = tid) (\<lambda>_. t') (tasks proj)\<rparr>]"
    by blast
  from update_first_at[OF assms(2)] obtain j where j: "j < length (tasks proj)"
    "tasks proj ! j = t"
    "update_first (\<lambda>t. task_id t = tid) (\<lambda>_. t') (tasks proj) = (tasks proj)[j := t']"
    by blast
  show ?thesis
    unfolding update_task_in_def using i(1,2) j(1,2) by (simp only: i(3) j(3)) blast
qed

subsection \<open>Next-task selection\<close>

text \<open>
  C10. For an existing project whose \<open>completed\<close> flag is true, \<open>getNextTask\<close> returns
  the \<open>already_completed\<close> result at once: the result does not depend on the project's
  tasks, and the state is the reloaded one.
\<close>

theorem getNextTask_completed:
  assumes "find (\<lambda>p. projectId p = pid) (data (loadTasks s)) = Some proj"
    and "completed proj"
  shows "getNextTask pid s = (AlreadyCompleted, loadTasks s)"
  using assms by (simp add: getNextTask_def Let_def)

theorem getNextTask_completed_witness:
  "find (\<lambda>p. projectId p = ''proj-1'')
     (data (loadTasks (ex_store [ex_project ''proj-1'' [ex_task ''task-1'' NotStarted False] True])))
     = Some (ex_project ''proj-1'' [ex_task ''task-1'' NotStarted False] True)
   \<and> completed (ex_project ''proj-1'' [ex_task ''task-1'' NotStarted False] True)
   \<and> fst (getNextTask ''proj-1''
            (ex_store [ex_project ''proj-1'' [ex_task ''task-1'' NotStarted False] True]))
       = AlreadyCompleted
   \<and> status_of (fst (getNextTask ''proj-1''
            (ex_store [ex_project ''proj-1'' [ex_task ''task-1'' NotStarted False] True])))
       = ''already_completed''"
  using getNextTask_completed
    [of "''proj-1''" "ex_store [ex_project ''proj-1'' [ex_task ''task-1'' NotStarted False] True]"
        "ex_project ''proj-1'' [ex_task ''task-1'' NotStarted False] True"]
  by (simp add: ex_store_data ex_project_def)

text \<open>
  C2, as the code has it. For an existing project that is not completed and has a task
  that is not done, \<open>getNextTask\<close> returns the first task, in insertion order, whose
  status is not \<open>done\<close>: every task before it is done, and whether it is in progress or
  not started plays no part.
\<close>

theorem getNextTask_first_not_done:
  assumes "find (\<lambda>p. projectId p = pid) (data (loadTasks s)) = Some proj"
    and "\<not> completed proj"
    and "\<exists>t \<in> set (tasks proj). status t \<noteq> Done"
  shows "\<exists>i < length (tasks proj).
           status (tasks proj ! i) \<noteq> Done
         \<and> (\<forall>j < i. status (tasks proj ! j) = Done)
         \<and> getNextTask pid s = (NextTask (brief_of (tasks proj ! i)), loadTasks s)"
proof -
  from assms(3) obtain t where t: "find (\<lambda>t. status t \<noteq> Done) (tasks proj) = Some t"
    by (cases "find (\<lambda>t. status t \<noteq> Done) (tasks proj)") (auto simp: find_None_iff)
  then obtain i where i: "i < length (tasks proj)" "status (tasks proj ! i) \<noteq> Done"
      "t = tasks proj ! i" "\<forall>j<i. status (tasks proj ! j) = Done"
    by (auto simp: find_Some_iff)
  have "getNextTask pid s = (NextTask (brief_of t), loadTasks s)"
    using assms(1,2) t by (simp add: getNextTask_def Let_def)
  with i show ?thesis by blast
qed

theorem getNextTask_first_not_done_witness:
  "find (\<lambda>p. projectId p = ''proj-1'')
     (data (loadTasks (ex_store [ex_project ''proj-1''
        [ex_task ''task-1'' Done False, ex_task ''task-2'' InProgress False,
         ex_task ''task-3'' NotStarted False] False])))
     = Some (ex_project ''proj-1''
        [ex_task ''task-1'' Done False, ex_task ''task-2'' InProgress False,
         ex_task ''task-3'' NotStarted False] False)
   \<and> fst (getNextTask ''proj-1'' (ex_store [ex_project ''proj-1''
        [ex_task ''task-1'' Done False, ex_task ''task-2'' InProgress False,
         ex_task ''task-3'' NotStarted False] False]))
       = NextTask (''task-2'', ''T'', ''D'')"
  using getNextTask_first_not_done
    [of "''proj-1''" "ex_store [ex_project ''proj-1''
        [ex_task ''task-1'' Done False, ex_task ''task-2'' InProgress False,
         ex_task ''task-3'' NotStarted False] False]"
        "ex_project ''proj-1''
        [ex_task ''task-1'' Done False, ex_task ''task-2'' InProgress False,
         ex_task ''task-3'' NotStarted False] False"]
  by (simp add: ex_store_data ex_project_def ex_task_def getNextTask_def brief_of_def)

text \<open>A task that is not started and comes first is returned although a later task is
  in progress.\<close>

theorem getNextTask_in_progress_counterexample:
  "fst (getNextTask ''proj-1'' (ex_store [ex_project ''proj-1''
        [ex_task ''task-1'' NotStarted False, ex_task ''task-2'' InProgress False] False]))
     = NextTask (brief_of (ex_task ''task-1'' NotStarted False))
   \<and> fst (getNextTask ''proj-1'' (ex_store [ex_project ''proj-1''
        [ex_task ''task-1'' NotStarted False, ex_task ''task-2'' InProgress False] False]))
     \<noteq> NextTask (brief_of (ex_task ''task-2'' InProgress False))"
  by (simp add: ex_store_data ex_project_def ex_task_def getNextTask_def brief_of_def)

subsection \<open>Finalization\<close>

text \<open>
  C9. For an existing project with no tasks and \<open>completed = false\<close>,
  \<open>approveProjectCompletion\<close> succeeds and sets \<open>completed\<close>: both checks hold of the empty
  list, and there is no no-tasks error. The write is assumed accepted; the method
  rethrows the error of a rejected write.
\<close>

theorem approveProjectCompletion_no_tasks:
  assumes "find (\<lambda>p. projectId p = pid) (data (loadTasks s)) = Some proj"
    and "tasks proj = []" and "\<not> completed proj" and "writable s"
  shows "fst (approveProjectCompletion pid s) = ProjectApprovedComplete pid
       \<and> find (\<lambda>p. projectId p = pid) (data (snd (approveProjectCompletion pid s)))
           = Some (proj\<lparr>completed := True\<rparr>)
       \<and> disk (snd (approveProjectCompletion pid s))
           = Some (data (snd (approveProjectCompletion pid s)))"
  using assms find_projectId[OF assms(1)]
  by (simp add: approveProjectCompletion_def Let_def save_and_return_def saveTasks_def
        find_update_first)

theorem approveProjectCompletion_no_tasks_witness:
  "find (\<lambda>p. projectId p = ''proj-1'') (data (loadTasks (ex_store [ex_project ''proj-1'' [] False])))
     = Some (ex_project ''proj-1'' [] False)
   \<and> tasks (ex_project ''proj-1'' [] False) = []
   \<and> \<not> completed (ex_project ''proj-1'' [] False)
   \<and> writable (ex_store [ex_project ''proj-1'' [] False])
   \<and> fst (approveProjectCompletion ''proj-1'' (ex_store [ex_project ''proj-1'' [] False]))
       = ProjectApprovedComplete ''proj-1''
   \<and> disk (snd (approveProjectCompletion ''proj-1'' (ex_store [ex_project ''proj-1'' [] False])))
       = Some [ex_project ''proj-1'' [] True]"
  using approveProjectCompletion_no_tasks
    [of "''proj-1''" "ex_store [ex_project ''proj-1'' [] False]" "ex_project ''proj-1'' [] False"]
  by (simp add: ex_store_data ex_store_writable ex_project_def approveProjectCompletion_def
        save_and_return_def saveTasks_def)

text \<open>
  C3, as the code has it. \<open>approveProjectCompletion\<close> does not look at the \<open>completed\<close>
  flag. On a project that is already completed it makes the same two checks as on an
  open one: it fails with the not-all-done or the not-all-approved error, or it returns
  \<open>project_approved_complete\<close> again (\<open>Thrown\<close> when the write is rejected). In each case
  the projects in memory are the reloaded ones and the file is unchanged.
\<close>

theorem approveProjectCompletion_completed:
  assumes "find (\<lambda>p. projectId p = pid) (data (loadTasks s)) = Some proj"
    and "completed proj"
  shows "fst (approveProjectCompletion pid s) =
           (if \<not> list_all (\<lambda>t. status t = Done) (tasks proj)
            then Error ''Not all tasks are done.''
            else if \<not> list_all (\<lambda>t. status t = Done \<and> approved t) (tasks proj)
            then Error ''Not all done tasks are approved.''
            else if writable s then ProjectApprovedComplete pid else Thrown)
       \<and> data (snd (approveProjectCompletion pid s)) = data (loadTasks s)
       \<and> disk (snd (approveProjectCompletion pid s)) = disk s"
proof -
  have same: "update_first (\<lambda>p. projectId p = pid) (\<lambda>p. p\<lparr>completed := True\<rparr>)
                (data (loadTasks s)) = data (loadTasks s)"
    using assms by (intro update_first_same[where x=proj]) auto
  have d: "disk s = Some (data (loadTasks s))"
    by (rule loadTasks_found[OF assms(1)])
  show ?thesis
    using assms(1) find_projectId[OF assms(1)] same d
    by (simp add: approveProjectCompletion_def Let_def save_and_return_def saveTasks_def)
qed

theorem approveProjectCompletion_completed_witness:
  "find (\<lambda>p. projectId p = ''proj-1'')
     (data (loadTasks (ex_store [ex_project ''proj-1'' [ex_task ''task-1'' InProgress False] True])))
     = Some (ex_project ''proj-1'' [ex_task ''task-1'' InProgress False] True)
   \<and> completed (ex_project ''proj-1'' [ex_task ''task-1'' InProgress False] True)
   \<and> fst (approveProjectCompletion ''proj-1''
            (ex_store [ex_project ''proj-1'' [ex_task ''task-1'' InProgress False] True]))
       = Error ''Not all tasks are done.''"
  using approveProjectCompletion_completed
    [of "''proj-1''" "ex_store [ex_project ''proj-1'' [ex_task ''task-1'' InProgress False] True]"
        "ex_project ''proj-1'' [ex_task ''task-1'' InProgress False] True"]
  by (simp add: ex_store_data ex_project_def ex_task_def)

text \<open>A completed project whose tasks are all done and approved is finalized again
  without an error.\<close>

theorem approveProjectCompletion_completed_counterexample:
  "completed (ex_project ''proj-1'' [ex_task ''task-1'' Done True] True)
   \<and> \<not> is_error (fst (approveProjectCompletion ''proj-1''
                        (ex_store [ex_project ''proj-1'' [ex_task ''task-1'' Done True] True])))
   \<and> fst (approveProjectCompletion ''proj-1''
            (ex_store [ex_project ''proj-1'' [ex_task ''task-1'' Done True] True]))
       = ProjectApprovedComplete ''proj-1''
   \<and> status_of (fst (approveProjectCompletion ''proj-1''
            (ex_store [ex_project ''proj-1'' [ex_task ''task-1'' Done True] True])))
       = ''project_approved_complete''"
  by (simp add: ex_store_data ex_store_writable ex_project_def ex_task_def is_error_def
        approveProjectCompletion_def save_and_return_def saveTasks_def)

subsection \<open>Task approval\<close>

lemma approveTaskCompletion_no_project:
  "find (\<lambda>p. projectId p = pid) (data (loadTasks s)) = None \<Longrightarrow>
   approveTaskCompletion pid tid s = (Error ''Project not found'', loadTasks s)"
  by (simp add: approveTaskCompletion_def Let_def)

lemma approveTaskCompletion_no_task:
  "find (\<lambda>p. projectId p = pid) (data (loadTasks s)) = Some proj \<Longrightarrow>
   find (\<lambda>t. task_id t = tid) (tasks proj) = None \<Longrightarrow>
   approveTaskCompletion pid tid s = (Error ''Task not found'', loadTasks s)"
  by (simp add: approveTaskCompletion_def Let_def)

lemma approveTaskCompletion_not_done:
  "find (\<lambda>p. projectId p = pid) (data (loadTasks s)) = Some proj \<Longrightarrow>
   find (\<lambda>t. task_id t = tid) (tasks proj) = Some t \<Longrightarrow> status t \<noteq> Done \<Longrightarrow>
   approveTaskCompletion pid tid s = (Error ''Task not done yet.'', loadTasks s)"
  by (simp add: approveTaskCompletion_def Let_def)

lemma approveTaskCompletion_already:
  "find (\<lambda>p. projectId p = pid) (data (loadTasks s)) = Some proj \<Longrightarrow>
   find (\<lambda>t. task_id t = tid) (tasks proj) = Some t \<Longrightarrow> status t = Done \<Longrightarrow> approved t \<Longrightarrow>
   approveTaskCompletion pid tid s = (AlreadyApproved, loadTasks s)"
  by (simp add: approveTaskCompletion_def Let_def)

lemma approveTaskCompletion_approves:
  "find (\<lambda>p. projectId p = pid) (data (loadTasks s)) = Some proj \<Longrightarrow>
   find (\<lambda>t. task_id t = tid) (tasks proj) = Some t \<Longrightarrow>
   status t = Done \<Longrightarrow> \<not> approved t \<Longrightarrow> writable s \<Longrightarrow>
     approveTaskCompletion pid tid s =
       (TaskApproved pid (completion_of (t\<lparr>approved := True\<rparr>)),
        (loadTasks s)
          \<lparr>data := update_task_in pid tid (\<lambda>_. t\<lparr>approved := True\<rparr>) (data (loadTasks s)),
           disk := Some (update_task_in pid tid (\<lambda>_. t\<lparr>approved := True\<rparr>)
                           (data (loadTasks s)))\<rparr>)"
  using find_projectId[of pid "data (loadTasks s)" proj]
  by (simp add: approveTaskCompletion_def Let_def save_and_return_def saveTasks_def)

text \<open>
  C6. \<open>approveTaskCompletion\<close> first reloads the store (\<open>s1\<close>; the file is not touched).
  It returns an error and the reloaded state when the project is not found, when the task
  is not found, and when the task is not done. On a task that is done and approved it
  returns \<open>already_approved\<close> and the reloaded state. On a task that is done and not
  approved it returns \<open>task_approved\<close>; the data differ from the reloaded ones at that one
  task, whose \<open>approved\<close> flag is now true, and they are written to the file (the write
  being accepted).
\<close>

theorem approveTaskCompletion_cases:
  "(let s1 = loadTasks s; r = approveTaskCompletion pid tid s in
     disk s1 = disk s
   \<and> (find (\<lambda>p. projectId p = pid) (data s1) = None \<longrightarrow> r = (Error ''Project not found'', s1))
   \<and> (\<forall>proj. find (\<lambda>p. projectId p = pid) (data s1) = Some proj \<longrightarrow>
         (find (\<lambda>t. task_id t = tid) (tasks proj) = None \<longrightarrow> r = (Error ''Task not found'', s1))
       \<and> (\<forall>t. find (\<lambda>t. task_id t = tid) (tasks proj) = Some t \<longrightarrow>
             (status t \<noteq> Done \<longrightarrow> r = (Error ''Task not done yet.'', s1))
           \<and> (status t = Done \<and> approved t \<longrightarrow> r = (AlreadyApproved, s1))
           \<and> (status t = Done \<and> \<not> approved t \<and> writable s \<longrightarrow>
                fst r = TaskApproved pid (completion_of (t\<lparr>approved := True\<rparr>))
              \<and> (\<exists>i j. i < length (data s1) \<and> data s1 ! i = proj
                      \<and> j < length (tasks proj) \<and> tasks proj ! j = t
                      \<and> data (snd r)
                          = (data s1)[i := proj\<lparr>tasks := (tasks proj)[j := t\<lparr>approved := True\<rparr>]\<rparr>])
              \<and> disk (snd r) = Some (data (snd r))))))"
proof -
  have e: "\<exists>i j. i < length (data (loadTasks s)) \<and> data (loadTasks s) ! i = proj
                      \<and> j < length (tasks proj) \<and> tasks proj ! j = t
                      \<and> data (snd (approveTaskCompletion pid tid s))
                          = (data (loadTasks s))[i := proj\<lparr>tasks := (tasks proj)[j := t\<lparr>approved := True\<rparr>]\<rparr>]"
    if "find (\<lambda>p. projectId p = pid) (data (loadTasks s)) = Some proj"
      "find (\<lambda>t. task_id t = tid) (tasks proj) = Some t" "status t = Done" "\<not> approved t"
      "writable s"
    for proj t
    using update_task_in_at[OF that(1,2), of "t\<lparr>approved := True\<rparr>"]
    by (simp add: approveTaskCompletion_approves[OF that])
  have c: "(find (\<lambda>t. task_id t = tid) (tasks proj) = None \<longrightarrow>
            approveTaskCompletion pid tid s = (Error ''Task not found'', loadTasks s))
       \<and> (\<forall>t. find (\<lambda>t. task_id t = tid) (tasks proj) = Some t \<longrightarrow>
             (status t \<noteq> Done \<longrightarrow>
                approveTaskCompletion pid tid s = (Error ''Task not done yet.'', loadTasks s))
           \<and> (status t = Done \<and> approved t \<longrightarrow>
                approveTaskCompletion pid tid s = (AlreadyApproved, loadTasks s))
           \<and> (status t = Done \<and> \<not> approved t \<and> writable s \<longrightarrow>
                fst (approveTaskCompletion pid tid s)
                  = TaskApproved pid (completion_of (t\<lparr>approved := True\<rparr>))
              \<and> (\<exists>i j. i < length (data (loadTasks s)) \<and> data (loadTasks s) ! i = proj
                      \<and> j < length (tasks proj) \<and> tasks proj ! j = t
                      \<and> data (snd (approveTaskCompletion pid tid s))
                          = (data (loadTasks s))[i := proj\<lparr>tasks := (tasks proj)[j := t\<lparr>approved := True\<rparr>]\<rparr>])
              \<and> disk (snd (approveTaskCompletion pid tid s))
                  = Some (data (snd (approveTaskCompletion pid tid s)))))"
    if p: "find (\<lambda>p. projectId p = pid) (data (loadTasks s)) = Some proj" for proj
  proof (intro conjI allI impI)
    assume "find (\<lambda>t. task_id t = tid) (tasks proj) = None"
    then show "approveTaskCompletion pid tid s = (Error ''Task not found'', loadTasks s)"
      by (rule approveTaskCompletion_no_task[OF p])
  next
    fix t assume t: "find (\<lambda>t. task_id t = tid) (tasks proj) = Some t"
    { assume "status t \<noteq> Done"
      then show "approveTaskCompletion pid tid s = (Error ''Task not done yet.'', loadTasks s)"
        by (rule approveTaskCompletion_not_done[OF p t]) }
    { assume "status t = Done \<and> approved t"
      then show "approveTaskCompletion pid tid s = (AlreadyApproved, loadTasks s)"
        using approveTaskCompletion_already[OF p t] by blast }
    { assume h: "status t = Done \<and> \<not> approved t \<and> writable s"
      then have h': "status t = Done" "\<not> approved t" "writable s" by auto
      show "fst (approveTaskCompletion pid tid s)
                  = TaskApproved pid (completion_of (t\<lparr>approved := True\<rparr>))"
        by (simp add: approveTaskCompletion_approves[OF p t h'])
      show "\<exists>i j. i < length (data (loadTasks s)) \<and> data (loadTasks s) ! i = proj
                      \<and> j < length (tasks proj) \<and> tasks proj ! j = t
                      \<and> data (snd (approveTaskCompletion pid tid s))
                          = (data (loadTasks s))[i := proj\<lparr>tasks := (tasks proj)[j := t\<lparr>approved := True\<rparr>]\<rparr>]"
        by (rule e[OF p t h'])
      show "disk (snd (approveTaskCompletion pid tid s))
                  = Some (data (snd (approveTaskCompletion pid tid s)))"
        by (simp add: approveTaskCompletion_approves[OF p t h']) }
  qed
  have a: "disk (loadTasks s) = disk s" by simp
  have b: "find (\<lambda>p. projectId p = pid) (data (loadTasks s)) = None \<longrightarrow>
       approveTaskCompletion pid tid s = (Error ''Project not found'', loadTasks s)"
    using approveTaskCompletion_no_project by blast
  show ?thesis
    unfolding Let_def using a b c by blast
qed

theorem approveTaskCompletion_cases_witness:
  "fst (approveTaskCompletion ''proj-1'' ''task-1'' ex_review) = Error ''Task not done yet.''
   \<and> snd (approveTaskCompletion ''proj-1'' ''task-1'' ex_review) = loadTasks ex_review
   \<and> approveTaskCompletion ''proj-1'' ''task-2'' ex_review = (AlreadyApproved, loadTasks ex_review)
   \<and> writable ex_review
   \<and> fst (approveTaskCompletion ''proj-1'' ''task-3'' ex_review)
       = TaskApproved ''proj-1'' (''task-3'', ''T'', ''D'', ''ok'', True)
   \<and> disk (snd (approveTaskCompletion ''proj-1'' ''task-3'' ex_review))
       = Some [ex_project ''proj-1''
                 [ex_task ''task-1'' InProgress False, ex_task ''task-2'' Done True,
                  ex_task ''task-3'' Done True] False]"
proof -
  have d: "data (loadTasks ex_review) = [ex_project ''proj-1''
     [ex_task ''task-1'' InProgress False, ex_task ''task-2'' Done True,
      ex_task ''task-3'' Done False] False]"
    by (simp add: ex_review_def ex_store_data ex_project_def)
  have w: "writable ex_review"
    by (simp add: ex_review_def ex_store_writable)
  show ?thesis
    using approveTaskCompletion_cases[of ex_review "''proj-1''" "''task-1''"]
      approveTaskCompletion_cases[of ex_review "''proj-1''" "''task-2''"]
      approveTaskCompletion_cases[of ex_review "''proj-1''" "''task-3''"]
    by (simp add: Let_def d w ex_project_def ex_task_def completion_of_def
          update_task_in_def approveTaskCompletion_def save_and_return_def saveTasks_def)
qed

subsection \<open>Status changes\<close>

lemma handleTaskTool_update_eq: "handleTaskTool ''update'' a s = handleTaskTool_update a s"
  by (simp add: handleTaskTool_def)

lemma ex_fresh_data:
  "data ex_fresh = [ex_project ''proj-1'' [ex_task ''task-1'' NotStarted False] False]"
  by (simp add: ex_fresh_def ex_store_loaded ex_project_def)

lemma ex_started_data:
  "data ex_started = [ex_project ''proj-1'' [ex_task ''task-1'' InProgress False] False]"
  by (simp add: ex_started_def ex_store_loaded ex_project_def)

text \<open>
  C4, as the code has it. On an existing task whose status is \<open>not started\<close>, the
  \<open>update\<close> action of \<open>handleTaskTool\<close> asked for status \<open>done\<close> returns the
  invalid-transition error (the cannot-update error if the task is approved) and the
  state it was given: no field of any task changes.
\<close>

theorem handleTaskTool_not_started_to_done:
  assumes "find (\<lambda>p. projectId p = arg_projectId a) (data s) = Some proj"
    and "find (\<lambda>t. task_id t = arg_taskId a) (tasks proj) = Some t"
    and "status t = NotStarted" and "arg_status a = Some ''done''"
  shows "handleTaskTool ''update'' a s =
     ((if approved t then Error (''Cannot update an approved task: '' @ arg_taskId a)
       else invalid_transition NotStarted ''done''), s)"
  using assms by (simp add: handleTaskTool_update_eq handleTaskTool_update_def)

theorem handleTaskTool_not_started_to_done_witness:
  "find (\<lambda>p. projectId p = ''proj-1'') (data ex_fresh)
     = Some (ex_project ''proj-1'' [ex_task ''task-1'' NotStarted False] False)
   \<and> status (ex_task ''task-1'' NotStarted False) = NotStarted
   \<and> handleTaskTool ''update'' (ex_update ''proj-1'' ''task-1'' (Some ''done'') (Some ''ok''))
        ex_fresh
     = (invalid_transition NotStarted ''done'', ex_fresh)"
  using handleTaskTool_not_started_to_done
    [of "ex_update ''proj-1'' ''task-1'' (Some ''done'') (Some ''ok'')" ex_fresh
        "ex_project ''proj-1'' [ex_task ''task-1'' NotStarted False] False"
        "ex_task ''task-1'' NotStarted False"]
  by (simp add: ex_fresh_data ex_update_def ex_project_def ex_task_def)

text \<open>\<open>markTaskDone\<close> makes no transition check: a task that is not started becomes
  done.\<close>

theorem markTaskDone_not_started_counterexample:
  "status (ex_task ''task-1'' NotStarted False) = NotStarted
   \<and> fst (markTaskDone ''proj-1'' ''task-1'' (Some ''ok'') ex_fresh)
       = TaskMarkedDone ''proj-1'' (''task-1'', ''T'', ''D'', ''ok'', False)
   \<and> data (snd (markTaskDone ''proj-1'' ''task-1'' (Some ''ok'') ex_fresh))
       = [ex_project ''proj-1'' [ex_task ''task-1'' Done False] False]"
  by (simp add: ex_fresh_def ex_store_data ex_store_writable ex_project_def ex_task_def
        markTaskDone_def save_and_return_def saveTasks_def truthy_def completion_of_def
        update_task_in_def Let_def)

lemma handleTaskTool_update_no_details:
  assumes "arg_status a = Some ''done''" and "\<not> truthy (arg_completedDetails a)"
  shows "handleTaskTool_update a s =
     (case find (\<lambda>p. projectId p = arg_projectId a) (data s) of
        None \<Rightarrow> (Error (''Project not found: '' @ arg_projectId a), s)
      | Some proj \<Rightarrow>
          (case find (\<lambda>t. task_id t = arg_taskId a) (tasks proj) of
             None \<Rightarrow>
               (Error (''Task not found: '' @ arg_taskId a @ '' in project '' @ arg_projectId a), s)
           | Some t \<Rightarrow>
               if approved t
               then (Error (''Cannot update an approved task: '' @ arg_taskId a), s)
               else if status t = NotStarted then (invalid_transition (status t) ''done'', s)
               else (details_required, s)))"
proof -
  have "status t \<noteq> NotStarted \<Longrightarrow>
          status_name (status t) = ''done'' \<or> ''done'' \<in> set (validNextStates (status t))" for t
    by (cases "status t") auto
  then show ?thesis
    using assms by (auto simp add: handleTaskTool_update_def split: option.splits)
qed

text \<open>
  C5, as the code has it. The \<open>update\<close> action of \<open>handleTaskTool\<close> asked for status
  \<open>done\<close> with \<open>completedDetails\<close> omitted or empty returns an error and the state it was
  given, so nothing is changed in memory or in the file; on an existing, unapproved task
  that is in progress or done the error is the one that asks for the details.
\<close>

theorem handleTaskTool_done_requires_details:
  assumes "arg_status a = Some ''done''" and "\<not> truthy (arg_completedDetails a)"
  shows "is_error (fst (handleTaskTool ''update'' a s))
       \<and> snd (handleTaskTool ''update'' a s) = s
       \<and> (\<forall>proj t. find (\<lambda>p. projectId p = arg_projectId a) (data s) = Some proj
              \<and> find (\<lambda>t. task_id t = arg_taskId a) (tasks proj) = Some t
              \<and> \<not> approved t \<and> status t \<noteq> NotStarted
            \<longrightarrow> fst (handleTaskTool ''update'' a s) = details_required)"
  unfolding handleTaskTool_update_eq handleTaskTool_update_no_details[OF assms]
  by (auto simp: is_error_def invalid_transition_def details_required_def split: option.splits)

theorem handleTaskTool_done_requires_details_witness:
  "arg_status (ex_update ''proj-1'' ''task-1'' (Some ''done'') None) = Some ''done''
   \<and> \<not> truthy (arg_completedDetails (ex_update ''proj-1'' ''task-1'' (Some ''done'') None))
   \<and> handleTaskTool ''update'' (ex_update ''proj-1'' ''task-1'' (Some ''done'') None) ex_started
       = (details_required, ex_started)"
  using handleTaskTool_done_requires_details
    [of "ex_update ''proj-1'' ''task-1'' (Some ''done'') None" ex_started]
  by (simp add: ex_started_data ex_update_def ex_project_def ex_task_def truthy_def
        prod_eq_iff)

text \<open>\<open>markTaskDone\<close> takes the details as an optional argument: without them the
  task becomes done with empty details.\<close>

theorem markTaskDone_no_details_counterexample:
  "fst (markTaskDone ''proj-1'' ''task-1'' None ex_started)
       = TaskMarkedDone ''proj-1'' (''task-1'', ''T'', ''D'', [], False)
   \<and> data (snd (markTaskDone ''proj-1'' ''task-1'' None ex_started))
       = [ex_project ''proj-1''
            [(ex_task ''task-1'' InProgress False)\<lparr>status := Done, completedDetails := []\<rparr>]
            False]"
  by (simp add: ex_started_def ex_store_data ex_store_writable ex_project_def ex_task_def
        markTaskDone_def save_and_return_def saveTasks_def truthy_def completion_of_def
        update_task_in_def Let_def)

subsection \<open>Approval is never set by an update\<close>

lemma approved_apply_updates [simp]: "approved (apply_updates a t) = approved t"
  by (simp add: apply_updates_def Let_def split: option.splits)

lemma approvals_update_task_in:
  assumes "find (\<lambda>p. projectId p = pid) ps = Some proj"
    and "find (\<lambda>t. task_id t = tid) (tasks proj) = Some t"
    and "approved t' = approved t"
  shows "approvals (update_task_in pid tid (\<lambda>_. t') ps) = approvals ps"
proof -
  from update_task_in_at[OF assms(1,2), of t'] obtain i j where
    ij: "i < length ps" "ps ! i = proj" "j < length (tasks proj)" "tasks proj ! j = t"
      "update_task_in pid tid (\<lambda>_. t') ps = ps[i := proj\<lparr>tasks := (tasks proj)[j := t']\<rparr>]"
    by blast
  have "map approved ((tasks proj)[j := t']) = map approved (tasks proj)"
    using ij(3,4) assms(3) by (simp add: map_update list_update_same_conv)
  then show ?thesis
    using ij(1,2) by (simp add: approvals_def ij(5) map_update list_update_same_conv)
qed

text \<open>The \<open>update\<close> action either returns an error and the state it was given, or it
  reaches the assignments, on a task that is not approved.\<close>

lemma handleTaskTool_update_result:
  "(snd (handleTaskTool_update a s) = s \<and> is_error (fst (handleTaskTool_update a s))) \<or>
     (\<exists>proj t. find (\<lambda>p. projectId p = arg_projectId a) (data s) = Some proj
         \<and> find (\<lambda>t. task_id t = arg_taskId a) (tasks proj) = Some t
         \<and> \<not> approved t
         \<and> handleTaskTool_update a s =
             save_and_return (TaskUpdated (apply_updates a t))
               (s\<lparr>data := update_task_in (arg_projectId a) (arg_taskId a)
                              (\<lambda>_. apply_updates a t) (data s)\<rparr>))"
proof (cases "find (\<lambda>p. projectId p = arg_projectId a) (data s)")
  case None
  then show ?thesis by (simp add: handleTaskTool_update_def is_error_def)
next
  case (Some proj)
  note p = this
  show ?thesis
  proof (cases "find (\<lambda>t. task_id t = arg_taskId a) (tasks proj)")
    case None
    with p show ?thesis by (simp add: handleTaskTool_update_def is_error_def)
  next
    case (Some t)
    note t = this
    show ?thesis
    proof (cases "approved t")
      case True
      with p t show ?thesis by (simp add: handleTaskTool_update_def is_error_def)
    next
      case False
      note na = this
      show ?thesis
      proof (cases "(case arg_status a of None \<Rightarrow> False
                        | Some st \<Rightarrow> status_name (status t) \<noteq> st
                                     \<and> st \<notin> set (validNextStates (status t)))")
        case True
        with p t na show ?thesis
          by (simp add: handleTaskTool_update_def is_error_def invalid_transition_def)
      next
        case False
        note valid = this
        show ?thesis
        proof (cases "arg_status a = Some ''done'' \<and> \<not> truthy (arg_completedDetails a)")
          case True
          with p t na valid show ?thesis
            by (auto simp add: handleTaskTool_update_def is_error_def details_required_def)
        next
          case False
          with p t na valid have "handleTaskTool_update a s =
             save_and_return (TaskUpdated (apply_updates a t))
               (s\<lparr>data := update_task_in (arg_projectId a) (arg_taskId a)
                              (\<lambda>_. apply_updates a t) (data s)\<rparr>)"
            by (auto simp add: handleTaskTool_update_def Let_def)
          with p t na show ?thesis by blast
        qed
      qed
    qed
  qed
qed

lemma save_and_return_cases:
  "save_and_return r s = (r, s\<lparr>disk := Some (data s)\<rparr>) \<and> writable s
   \<or> save_and_return r s = (Thrown, s) \<and> \<not> writable s"
  by (simp add: save_and_return_def saveTasks_def)

lemma ex_started_writable: "writable ex_started"
  by (simp add: ex_started_def ex_store_writable)

text \<open>
  C8, as the code has it. The manager has no auto-approval. A \<open>create\<close> request gives
  the same result whatever \<open>autoApprove\<close> property it carries, and a project has no
  such field. The \<open>update\<close> action of \<open>handleTaskTool\<close> never changes an \<open>approved\<close> flag:
  the flags of all tasks are the same before and after, and the task it returns, whose
  status may now be \<open>done\<close>, has \<open>approved = false\<close>.
\<close>

theorem handleTaskTool_update_keeps_approval:
  "approvals (data (snd (handleTaskTool ''update'' a s))) = approvals (data s)
   \<and> (\<forall>t'. fst (handleTaskTool ''update'' a s) = TaskUpdated t' \<longrightarrow> \<not> approved t')
   \<and> handleProjectTool ''create'' (pa\<lparr>parg_autoApprove := x\<rparr>) s
       = handleProjectTool ''create'' pa s"
proof -
  have c: "handleProjectTool ''create'' (pa\<lparr>parg_autoApprove := x\<rparr>) s
       = handleProjectTool ''create'' pa s"
    by (simp add: handleProjectTool_def)
  from handleTaskTool_update_result[of a s]
  have "approvals (data (snd (handleTaskTool_update a s))) = approvals (data s)
   \<and> (\<forall>t'. fst (handleTaskTool_update a s) = TaskUpdated t' \<longrightarrow> \<not> approved t')"
  proof
    assume "snd (handleTaskTool_update a s) = s \<and> is_error (fst (handleTaskTool_update a s))"
    then show ?thesis by (auto simp: is_error_def)
  next
    assume "\<exists>proj t. find (\<lambda>p. projectId p = arg_projectId a) (data s) = Some proj
         \<and> find (\<lambda>t. task_id t = arg_taskId a) (tasks proj) = Some t
         \<and> \<not> approved t
         \<and> handleTaskTool_update a s =
             save_and_return (TaskUpdated (apply_updates a t))
               (s\<lparr>data := update_task_in (arg_projectId a) (arg_taskId a)
                              (\<lambda>_. apply_updates a t) (data s)\<rparr>)"
    then obtain proj t where p: "find (\<lambda>p. projectId p = arg_projectId a) (data s) = Some proj"
      and t: "find (\<lambda>t. task_id t = arg_taskId a) (tasks proj) = Some t"
      and na: "\<not> approved t"
      and r: "handleTaskTool_update a s =
             save_and_return (TaskUpdated (apply_updates a t))
               (s\<lparr>data := update_task_in (arg_projectId a) (arg_taskId a)
                              (\<lambda>_. apply_updates a t) (data s)\<rparr>)"
      by blast
    have ap: "approvals (update_task_in (arg_projectId a) (arg_taskId a)
                 (\<lambda>_. apply_updates a t) (data s)) = approvals (data s)"
      by (rule approvals_update_task_in[OF p t]) simp
    show ?thesis
      using save_and_return_cases[of "TaskUpdated (apply_updates a t)"
          "s\<lparr>data := update_task_in (arg_projectId a) (arg_taskId a)
                              (\<lambda>_. apply_updates a t) (data s)\<rparr>"] na ap
      unfolding r by auto
  qed
  with c show ?thesis unfolding handleTaskTool_update_eq by blast
qed

theorem handleTaskTool_update_keeps_approval_witness:
  "fst (handleTaskTool ''update'' (ex_update ''proj-1'' ''task-1'' (Some ''done'') (Some ''ok''))
          ex_started)
     = TaskUpdated ((ex_task ''task-1'' InProgress False)
                      \<lparr>status := Done, completedDetails := ''ok''\<rparr>)
   \<and> \<not> approved ((ex_task ''task-1'' InProgress False)
                      \<lparr>status := Done, completedDetails := ''ok''\<rparr>)
   \<and> approvals (data (snd (handleTaskTool ''update''
          (ex_update ''proj-1'' ''task-1'' (Some ''done'') (Some ''ok'')) ex_started)))
       = [[False]]"
  using handleTaskTool_update_keeps_approval
    [of "ex_update ''proj-1'' ''task-1'' (Some ''done'') (Some ''ok'')" ex_started]
  by (simp add: ex_started_data ex_started_writable ex_update_def ex_project_def
        ex_task_def truthy_def handleTaskTool_update_eq handleTaskTool_update_def
        apply_updates_def parse_status_def save_and_return_def saveTasks_def approvals_def
        update_task_in_def Let_def)

text \<open>A project created through the project tool with \<open>autoApprove: true\<close>: its task
  is moved to \<open>in progress\<close> and then to \<open>done\<close> with details, and is not approved.\<close>

theorem autoApprove_counterexample:
  "parg_autoApprove ex_create_auto = Some True
   \<and> fst (run [HandleProjectTool ''create'' ex_create_auto,
               HandleTaskTool ''update''
                 (ex_update ''proj-1'' ''task-1'' (Some ''in progress'') None),
               HandleTaskTool ''update''
                 (ex_update ''proj-1'' ''task-1'' (Some ''done'') (Some ''ok''))]
              (construct None True 125000))
     = [Planned ''proj-1'' 1 [(''task-1'', ''T'', ''D'')],
        TaskUpdated \<lparr>task_id = ''task-1'', title = ''T'', description = ''D'',
                     status = InProgress, approved = False, completedDetails = []\<rparr>,
        TaskUpdated \<lparr>task_id = ''task-1'', title = ''T'', description = ''D'',
                     status = Done, approved = False, completedDetails = ''ok''\<rparr>]"
  by (simp add: ex_create_auto_def ex_update_def construct_def loadTasks_def
        handleProjectTool_def handleTaskTool_def createProject_def handleTaskTool_update_def
        apply_updates_def parse_status_def save_and_return_def saveTasks_def truthy_def
        update_task_in_def js_number_exact number_string_def digits.simps digit_char_def
        brief_of_def Let_def)

subsection \<open>The approval invariant\<close>

lemma list_all_update_first:
  "list_all Q xs \<Longrightarrow> (\<And>x. x \<in> set xs \<Longrightarrow> Q x \<Longrightarrow> Q (f x)) \<Longrightarrow>
     list_all Q (update_first P f xs)"
  by (induction xs) auto

lemma list_all_remove_first: "list_all Q xs \<Longrightarrow> list_all Q (remove_first P xs)"
  by (induction xs) auto

lemma store_ok_update_task_in:
  "store_ok ps \<Longrightarrow> task_ok t' \<Longrightarrow> store_ok (update_task_in pid tid (\<lambda>_. t') ps)"
  unfolding store_ok_def update_task_in_def
  by (rule list_all_update_first) (auto intro: list_all_update_first)

lemma store_ok_found:
  "store_ok ps \<Longrightarrow> find P ps = Some proj \<Longrightarrow> find Q (tasks proj) = Some t \<Longrightarrow> task_ok t"
  by (auto simp: store_ok_def list_all_iff dest!: find_in_set)

lemma newTasks_ok: "list_all task_ok (snd (newTasks c defs))"
proof (induction defs arbitrary: c)
  case Nil
  then show ?case by simp
next
  case (Cons d ds)
  from Cons.IH[of "js_number (c + 1)"] show ?case
    by (cases "newTasks (js_number (c + 1)) ds") (simp add: task_ok_def Let_def)
qed

lemma invariant_loadTasks: "invariant s \<Longrightarrow> invariant (loadTasks s)"
  by (auto simp: invariant_def loadTasks_def store_ok_def split: option.splits)

lemma invariant_construct:
  "invariant s \<Longrightarrow> invariant (construct (disk s) (writable s) (max_arguments s))"
  by (auto simp: invariant_def construct_def loadTasks_def store_ok_def split: option.splits)

lemma invariant_save_and_return:
  "invariant s \<Longrightarrow> store_ok ps \<Longrightarrow> invariant (snd (save_and_return r (s\<lparr>data := ps\<rparr>)))"
  by (auto simp: invariant_def save_and_return_def saveTasks_def)

lemma invariant_save_and_return_counter:
  "invariant s \<Longrightarrow> store_ok ps \<Longrightarrow>
     invariant (snd (save_and_return r (s\<lparr>projectCounter := pc, taskCounter := tc, data := ps\<rparr>)))"
  by (auto simp: invariant_def save_and_return_def saveTasks_def)

lemma invariant_save_and_return_task_counter:
  "invariant s \<Longrightarrow> store_ok ps \<Longrightarrow>
     invariant (snd (save_and_return r (s\<lparr>taskCounter := tc, data := ps\<rparr>)))"
  by (auto simp: invariant_def save_and_return_def saveTasks_def)

lemma invariant_data: "invariant s \<Longrightarrow> store_ok (data s)"
  by (simp add: invariant_def)

lemma invariant_taskCounter: "invariant (s\<lparr>taskCounter := tc\<rparr>) = invariant s"
  by (simp add: invariant_def)

lemma invariant_createProject:
  assumes "invariant s" shows "invariant (snd (createProject prompt defs plan s))"
proof -
  have i: "invariant (loadTasks s)" by (rule invariant_loadTasks[OF assms])
  obtain tc ts where n: "newTasks (taskCounter (loadTasks s)) defs = (tc, ts)"
    by (cases "newTasks (taskCounter (loadTasks s)) defs")
  have "list_all task_ok ts" using newTasks_ok[of "taskCounter (loadTasks s)" defs] n by simp
  then have "store_ok (data (loadTasks s) @
       [\<lparr>projectId = ''proj-'' @ number_string (js_number (projectCounter (loadTasks s) + 1)),
         initialPrompt = prompt, projectPlan = (if truthy plan then the plan else prompt),
         tasks = ts, completed = False\<rparr>])"
    using invariant_data[OF i] by (simp add: store_ok_def)
  from invariant_save_and_return_counter[OF i this] show ?thesis
    by (simp add: createProject_def Let_def n)
qed

lemma invariant_getNextTask:
  "invariant s \<Longrightarrow> invariant (snd (getNextTask pid s))"
  by (auto simp: getNextTask_def Let_def invariant_loadTasks split: option.splits)

lemma invariant_openTaskDetails:
  "invariant s \<Longrightarrow> invariant (snd (openTaskDetails tid s))"
  by (simp add: openTaskDetails_def Let_def invariant_loadTasks)

lemma invariant_listProjects:
  "invariant s \<Longrightarrow> invariant (snd (listProjects s))"
  by (simp add: listProjects_def Let_def invariant_loadTasks)

lemma invariant_markTaskDone:
  assumes "invariant s" shows "invariant (snd (markTaskDone pid tid details s))"
proof -
  have i: "invariant (loadTasks s)" by (rule invariant_loadTasks[OF assms])
  have "invariant (snd (save_and_return r ((loadTasks s)
          \<lparr>data := update_task_in pid tid (\<lambda>_. t\<lparr>status := Done, completedDetails := d\<rparr>)
                     (data (loadTasks s))\<rparr>)))" for r t d
    by (rule invariant_save_and_return[OF i])
       (rule store_ok_update_task_in[OF invariant_data[OF i]], simp add: task_ok_def)
  then show ?thesis
    using i by (simp add: markTaskDone_def Let_def split: option.splits)
qed

lemma invariant_approveTaskCompletion:
  assumes "invariant s" shows "invariant (snd (approveTaskCompletion pid tid s))"
proof -
  have i: "invariant (loadTasks s)" by (rule invariant_loadTasks[OF assms])
  have "invariant (snd (save_and_return r ((loadTasks s)
          \<lparr>data := update_task_in pid tid (\<lambda>_. t\<lparr>approved := True\<rparr>)
                     (data (loadTasks s))\<rparr>)))" if "status t = Done" for r t
    by (rule invariant_save_and_return[OF i])
       (rule store_ok_update_task_in[OF invariant_data[OF i]], simp add: task_ok_def that)
  then show ?thesis
    using i by (simp add: approveTaskCompletion_def Let_def split: option.splits)
qed

lemma invariant_approveProjectCompletion:
  assumes "invariant s" shows "invariant (snd (approveProjectCompletion pid s))"
proof -
  have i: "invariant (loadTasks s)" by (rule invariant_loadTasks[OF assms])
  have "store_ok (update_first (\<lambda>p. projectId p = pid) (\<lambda>p. p\<lparr>completed := True\<rparr>)
                   (data (loadTasks s)))"
    using invariant_data[OF i] unfolding store_ok_def
    by (rule list_all_update_first) simp
  from invariant_save_and_return[OF i this] show ?thesis
    using i by (simp add: approveProjectCompletion_def Let_def split: option.splits)
qed

lemma invariant_addTasksToProject:
  assumes "invariant s" shows "invariant (snd (addTasksToProject pid defs s))"
proof -
  have i: "invariant (loadTasks s)" by (rule invariant_loadTasks[OF assms])
  obtain tc ts where n: "newTasks (taskCounter (loadTasks s)) defs = (tc, ts)"
    by (cases "newTasks (taskCounter (loadTasks s)) defs")
  have ts: "list_all task_ok ts"
    using newTasks_ok[of "taskCounter (loadTasks s)" defs] n by simp
  have "store_ok (update_first (\<lambda>p. projectId p = pid) (\<lambda>p. p\<lparr>tasks := tasks p @ ts\<rparr>)
                   (data (loadTasks s)))"
    using invariant_data[OF i] unfolding store_ok_def
    by (rule list_all_update_first) (simp add: ts)
  from invariant_save_and_return_task_counter[OF i this] show ?thesis
    using i
    by (simp add: addTasksToProject_def Let_def n invariant_taskCounter split: option.splits)
qed

lemma invariant_updateTask:
  assumes "invariant s" shows "invariant (snd (updateTask pid tid ti de s))"
proof -
  have i: "invariant (loadTasks s)" by (rule invariant_loadTasks[OF assms])
  have "invariant (snd (save_and_return r ((loadTasks s)
          \<lparr>data := update_task_in pid tid (\<lambda>_. t') (data (loadTasks s))\<rparr>)))"
    if "task_ok t'" for r t'
    by (rule invariant_save_and_return[OF i])
       (rule store_ok_update_task_in[OF invariant_data[OF i] that])
  moreover have "task_ok (if truthy de
        then (if truthy ti then t\<lparr>title := the ti\<rparr> else t)\<lparr>description := the de\<rparr>
        else (if truthy ti then t\<lparr>title := the ti\<rparr> else t))"
    if "find (\<lambda>p. projectId p = pid) (data (loadTasks s)) = Some proj"
       "find (\<lambda>t. task_id t = tid) (tasks proj) = Some t" for proj t
    using store_ok_found[OF invariant_data[OF i] that] by (simp add: task_ok_def)
  ultimately show ?thesis
    using i by (simp add: updateTask_def Let_def split: option.splits)
qed

lemma invariant_deleteTask:
  assumes "invariant s" shows "invariant (snd (deleteTask pid tid s))"
proof -
  have i: "invariant (loadTasks s)" by (rule invariant_loadTasks[OF assms])
  have "store_ok (update_first (\<lambda>p. projectId p = pid)
                   (\<lambda>p. p\<lparr>tasks := remove_first (\<lambda>t. task_id t = tid) (tasks p)\<rparr>)
                   (data (loadTasks s)))"
    using invariant_data[OF i] unfolding store_ok_def
    by (rule list_all_update_first) (simp add: list_all_remove_first)
  from invariant_save_and_return[OF i this] show ?thesis
    using i by (simp add: deleteTask_def Let_def split: option.splits)
qed

lemma invariant_handleProjectTool:
  assumes "invariant s" shows "invariant (snd (handleProjectTool action a s))"
proof -
  have "store_ok (remove_first (\<lambda>p. projectId p = parg_projectId a) (data s))"
    using invariant_data[OF assms] unfolding store_ok_def by (rule list_all_remove_first)
  from invariant_save_and_return[OF assms this] show ?thesis
    using assms
    by (simp add: handleProjectTool_def invariant_listProjects invariant_createProject
          invariant_addTasksToProject invariant_approveProjectCompletion
          split: option.splits)
qed

lemma invariant_handleTaskTool_update:
  assumes "invariant s" shows "invariant (snd (handleTaskTool_update a s))"
  using handleTaskTool_update_result[of a s]
proof
  assume "snd (handleTaskTool_update a s) = s \<and> is_error (fst (handleTaskTool_update a s))"
  with assms show ?thesis by simp
next
  assume "\<exists>proj t. find (\<lambda>p. projectId p = arg_projectId a) (data s) = Some proj
         \<and> find (\<lambda>t. task_id t = arg_taskId a) (tasks proj) = Some t
         \<and> \<not> approved t
         \<and> handleTaskTool_update a s =
             save_and_return (TaskUpdated (apply_updates a t))
               (s\<lparr>data := update_task_in (arg_projectId a) (arg_taskId a)
                              (\<lambda>_. apply_updates a t) (data s)\<rparr>)"
  then obtain t where na: "\<not> approved t"
      and r: "handleTaskTool_update a s =
             save_and_return (TaskUpdated (apply_updates a t))
               (s\<lparr>data := update_task_in (arg_projectId a) (arg_taskId a)
                              (\<lambda>_. apply_updates a t) (data s)\<rparr>)"
    by blast
  have "task_ok (apply_updates a t)" using na by (simp add: task_ok_def)
  from invariant_save_and_return[OF assms
      store_ok_update_task_in[OF invariant_data[OF assms] this]]
  show ?thesis unfolding r .
qed

lemma invariant_handleTaskTool:
  "invariant s \<Longrightarrow> invariant (snd (handleTaskTool action a s))"
  by (simp add: handleTaskTool_def invariant_openTaskDetails invariant_handleTaskTool_update
        invariant_deleteTask)

lemma invariant_step: "invariant s \<Longrightarrow> invariant (snd (step op s))"
  by (cases op)
     (simp_all add: invariant_createProject invariant_getNextTask invariant_markTaskDone
        invariant_approveTaskCompletion invariant_approveProjectCompletion
        invariant_openTaskDetails invariant_listProjects invariant_addTasksToProject
        invariant_updateTask invariant_deleteTask invariant_handleProjectTool
        invariant_handleTaskTool invariant_loadTasks invariant_construct)

lemma snd_run_Cons: "snd (run (op # ops) s) = snd (run ops (snd (step op s)))"
  by (simp add: Let_def split: prod.splits)

lemma invariant_run: "invariant s \<Longrightarrow> invariant (snd (run ops s))"
proof (induction ops arbitrary: s)
  case Nil
  then show ?case by simp
next
  case (Cons op ops)
  from Cons.IH[OF invariant_step[OF Cons.prems, of op]] show ?case
    by (simp only: snd_run_Cons)
qed

text \<open>
  C1. From a state that satisfies the invariant (in memory and in the file), every
  sequence of public operations, reloads and restarts ends in a state that satisfies it:
  every task with \<open>approved = true\<close> has status \<open>done\<close>. Since the sequence is arbitrary,
  this holds after each operation; so no operation approves a task that is not done, and
  none moves an approved task away from \<open>done\<close>.
\<close>

theorem approved_implies_done:
  assumes "invariant s"
  shows "invariant (snd (run ops s))
       \<and> (\<forall>p \<in> set (data (snd (run ops s))). \<forall>t \<in> set (tasks p). approved t \<longrightarrow> status t = Done)"
  using invariant_run[OF assms, of ops]
  by (auto simp: invariant_def store_ok_def task_ok_def list_all_iff)

theorem approved_implies_done_witness:
  "invariant ex_review
   \<and> invariant (snd (run [HandleTaskTool ''update''
                            (ex_update ''proj-1'' ''task-2'' (Some ''in progress'') None),
                          ApproveTaskCompletion ''proj-1'' ''task-3''] ex_review))"
proof -
  have "invariant ex_review"
    by (simp add: invariant_def ex_review_def ex_store_loaded ex_store_disk
          store_ok_def task_ok_def ex_project_def ex_task_def)
  then show ?thesis
    using approved_implies_done[of ex_review "[HandleTaskTool ''update''
                            (ex_update ''proj-1'' ''task-2'' (Some ''in progress'') None),
                          ApproveTaskCompletion ''proj-1'' ''task-3'']"]
    by blast
qed

subsection \<open>Rendering and reading numbers\<close>

lemma digit_val_digit_char: "d < 10 \<Longrightarrow> digit_val (digit_char d) = Some d"
proof -
  assume "d < 10"
  then have "d \<in> {0, 1, 2, 3, 4, 5, 6, 7, 8, 9}" by auto
  then show ?thesis by (auto simp: digit_val_def digit_char_def)
qed

lemma is_digit_digit_char: "d < 10 \<Longrightarrow> is_digit (digit_char d)"
  by (simp add: is_digit_def digit_val_digit_char)

lemma is_digit_not_sign: "is_digit c \<Longrightarrow> \<not> is_space c \<and> c \<noteq> CHR ''-'' \<and> c \<noteq> CHR ''+''"
  by (auto simp: is_digit_def digit_val_def is_space_def Let_def split: if_splits)

lemma digits_all_digit: "list_all is_digit (digits n)"
proof (induction n rule: digits.induct)
  case (1 n)
  show ?case
  proof (cases "n < 10")
    case True
    then show ?thesis by (subst digits.simps) (simp add: is_digit_digit_char)
  next
    case False
    with 1 show ?thesis by (subst digits.simps) (simp add: is_digit_digit_char)
  qed
qed

lemma digits_not_Nil: "digits n \<noteq> []"
  by (subst digits.simps) simp

lemma digits_value_snoc:
  "digit_val c = Some d \<Longrightarrow> digits_value (xs @ [c]) = 10 * digits_value xs + d"
  by (simp add: digits_value_def)

lemma digits_value_digits: "digits_value (digits n) = n"
proof (induction n rule: digits.induct)
  case (1 n)
  show ?case
  proof (cases "n < 10")
    case True
    then show ?thesis
      by (subst digits.simps) (simp add: digits_value_def digit_val_digit_char)
  next
    case False
    have "digits_value (digits (n div 10) @ [digit_char (n mod 10)])
            = 10 * digits_value (digits (n div 10)) + n mod 10"
      by (rule digits_value_snoc) (simp add: digit_val_digit_char)
    with False 1 show ?thesis by (subst digits.simps) simp
  qed
qed

lemma takeWhile_digits: "takeWhile is_digit (digits n) = digits n"
  using digits_all_digit[of n] by (simp add: list_all_iff)

lemma parseInt_digits: "parseInt (digits n) = Some (js_number (int n))"
proof -
  obtain c cs where d: "digits n = c # cs"
    using digits_not_Nil[of n] by (cases "digits n") auto
  have "is_digit c" using digits_all_digit[of n] d by simp
  from is_digit_not_sign[OF this] show ?thesis
    using digits_value_digits[of n] takeWhile_digits[of n] unfolding d
    by (simp add: parseInt_def Let_def del: takeWhile_eq_all_conv)
qed

lemma parseInt_minus_digits:
  "0 < n \<Longrightarrow> parseInt (CHR ''-'' # digits n) = Some (js_number (- int n))"
  by (simp add: parseInt_def Let_def is_space_def takeWhile_digits digits_value_digits
        digits_not_Nil)

lemma parseInt_number_string: "parseInt (number_string i) = Some (js_number i)"
proof (cases "i < 0")
  case True
  then have "0 < nat (- i)" by simp
  from parseInt_minus_digits[OF this] True show ?thesis by (simp add: number_string_def)
next
  case False
  then show ?thesis by (simp add: number_string_def parseInt_digits)
qed

text \<open>A number that a double holds exactly is read back from its rendering.\<close>

lemma parseInt_rendered:
  "- (2 ^ 53) \<le> n \<Longrightarrow> n \<le> 2 ^ 53 \<Longrightarrow> parseInt (number_string n) = Some n"
  by (simp add: parseInt_number_string js_number_exact)

lemma id_number_proj:
  "- (2 ^ 53) \<le> n \<Longrightarrow> n \<le> 2 ^ 53 \<Longrightarrow>
     id_number ''proj-'' (''proj-'' @ number_string n) = Some n"
  by (simp add: id_number_def parseInt_rendered)

lemma id_number_task:
  "- (2 ^ 53) \<le> n \<Longrightarrow> n \<le> 2 ^ 53 \<Longrightarrow>
     id_number ''task-'' (''task-'' @ number_string n) = Some n"
  by (simp add: id_number_def parseInt_rendered)

text \<open>The same two facts with the prefix written as the simplifier writes it.\<close>

lemmas id_number_rendered = id_number_proj[simplified] id_number_task[simplified]

subsection \<open>Watermarks\<close>







subsection \<open>The identifiers of new tasks\<close>











subsection \<open>Increasing identifiers\<close>








subsection \<open>Allocation by one operation\<close>









lemma run_single_snd: "snd (run [op] s) = snd (step op s)"
  by (simp add: Let_def split: prod.splits)








subsection \<open>Allocation on a rejected write and on a missing file\<close>





lemma exact_range_shift: "exact_range c (j + k) \<Longrightarrow> exact_range (c + int j) k"
  by (simp add: exact_range_def)


subsection \<open>A run of the example sequence\<close>



subsection \<open>Identifier allocation\<close>



subsection \<open>Allocation at the edge of the exact numbers\<close>








end
